theory Spec2Isabelle
  imports Complex_Main "HOL-Library.Char_ord" "HOL-Library.List_Lexorder"
begin

section \<open>The relational store as the query layer sees it\<close>

text \<open>
  The dashboard's query layer (\<^verbatim>\<open>web/src/db/queries/*.ts\<close>) sends SQL to PostgreSQL
  through drizzle. The embedding keeps that shape: a table is the list of its rows, a
  nullable column is an \<open>option\<close> (\<open>None\<close> is SQL NULL), a condition is three-valued
  (\<open>bool option\<close>), \<^verbatim>\<open>WHERE\<close> keeps the rows whose condition is true, \<^verbatim>\<open>ORDER BY\<close> is a
  sort by a comparator, \<^verbatim>\<open>LIMIT\<close>/\<^verbatim>\<open>OFFSET\<close> are \<open>take\<close>/\<open>drop\<close>.

  Conventions of the model, each a choice the text of a claim does not decide:
  \<^item> \<^verbatim>\<open>double precision\<close> columns are \<open>real\<close>: only comparisons are made on them;
  \<^item> \<^verbatim>\<open>text\<close> is \<open>string\<close>, compared byte-wise (the C collation), which is the order the
    source relies on for its ISO 8601 timestamps;
  \<^item> rows that tie under \<^verbatim>\<open>ORDER BY\<close> keep their table order (the engine may return
    them in any order);
  \<^item> a \<^verbatim>\<open>limit\<close> is a row count (\<open>nat\<close>): every caller passes the default or a literal;
  \<^item> \<^verbatim>\<open>Date.now()\<close> and the rendering of an instant as text are parameters of the
    queries that read the clock.
\<close>

subsection \<open>Three-valued conditions\<close>

type_synonym sql_bool = "bool option"

definition sql_eq :: "'a option \<Rightarrow> 'a option \<Rightarrow> sql_bool" where
  "sql_eq a b = (case (a, b) of (Some x, Some y) \<Rightarrow> Some (x = y) | _ \<Rightarrow> None)"

definition sql_gte :: "'a::linorder option \<Rightarrow> 'a option \<Rightarrow> sql_bool" where
  "sql_gte a b = (case (a, b) of (Some x, Some y) \<Rightarrow> Some (y \<le> x) | _ \<Rightarrow> None)"

definition sql_lte :: "'a::linorder option \<Rightarrow> 'a option \<Rightarrow> sql_bool" where
  "sql_lte a b = (case (a, b) of (Some x, Some y) \<Rightarrow> Some (x \<le> y) | _ \<Rightarrow> None)"

fun sql_and2 :: "sql_bool \<Rightarrow> sql_bool \<Rightarrow> sql_bool" where
  "sql_and2 (Some False) _ = Some False"
| "sql_and2 _ (Some False) = Some False"
| "sql_and2 (Some True) (Some True) = Some True"
| "sql_and2 _ _ = None"

fun sql_or2 :: "sql_bool \<Rightarrow> sql_bool \<Rightarrow> sql_bool" where
  "sql_or2 (Some True) _ = Some True"
| "sql_or2 _ (Some True) = Some True"
| "sql_or2 (Some False) (Some False) = Some False"
| "sql_or2 _ _ = None"

text \<open>drizzle's \<^verbatim>\<open>and(...conditions)\<close>: the conditions joined by \<^verbatim>\<open>AND\<close>.\<close>

fun sql_and :: "('r \<Rightarrow> sql_bool) list \<Rightarrow> 'r \<Rightarrow> sql_bool" where
  "sql_and [] r = Some True"
| "sql_and [c] r = c r"
| "sql_and (c # cs) r = sql_and2 (c r) (sql_and cs r)"

definition sql_where :: "('r \<Rightarrow> sql_bool) \<Rightarrow> 'r list \<Rightarrow> 'r list" where
  "sql_where c rows = filter (\<lambda>r. c r = Some True) rows"

text \<open>\<^verbatim>\<open>.where(where)\<close> with \<^verbatim>\<open>where\<close> possibly \<^verbatim>\<open>undefined\<close>: then no clause is sent.\<close>

definition where_opt :: "('r \<Rightarrow> sql_bool) option \<Rightarrow> 'r list \<Rightarrow> 'r list" where
  "where_opt w rows = (case w of None \<Rightarrow> rows | Some c \<Rightarrow> sql_where c rows)"

definition sql_coalesce :: "'a option \<Rightarrow> 'a \<Rightarrow> 'a" where
  "sql_coalesce a d = (case a of None \<Rightarrow> d | Some x \<Rightarrow> x)"

definition sql_abs :: "real option \<Rightarrow> real option" where
  "sql_abs a = map_option abs a"

subsection \<open>ORDER BY\<close>

text \<open>
  PostgreSQL sorts NULL as larger than every value: \<^verbatim>\<open>ASC\<close> puts NULLs last,
  \<^verbatim>\<open>DESC\<close> puts them first, unless \<^verbatim>\<open>NULLS LAST\<close> is written.
\<close>

definition sql_asc :: "('r \<Rightarrow> 'k::linorder option) \<Rightarrow> 'r \<Rightarrow> 'r \<Rightarrow> bool" where
  "sql_asc key a b =
     (case (key a, key b) of
        (_, None) \<Rightarrow> True
      | (None, Some _) \<Rightarrow> False
      | (Some x, Some y) \<Rightarrow> x \<le> y)"

definition sql_desc :: "('r \<Rightarrow> 'k::linorder option) \<Rightarrow> 'r \<Rightarrow> 'r \<Rightarrow> bool" where
  "sql_desc key a b =
     (case (key a, key b) of
        (None, _) \<Rightarrow> True
      | (Some _, None) \<Rightarrow> False
      | (Some x, Some y) \<Rightarrow> y \<le> x)"

definition sql_desc_nulls_last :: "('r \<Rightarrow> 'k::linorder option) \<Rightarrow> 'r \<Rightarrow> 'r \<Rightarrow> bool" where
  "sql_desc_nulls_last key a b =
     (case (key a, key b) of
        (_, None) \<Rightarrow> True
      | (None, Some _) \<Rightarrow> False
      | (Some x, Some y) \<Rightarrow> y \<le> x)"

fun insert_by :: "('r \<Rightarrow> 'r \<Rightarrow> bool) \<Rightarrow> 'r \<Rightarrow> 'r list \<Rightarrow> 'r list" where
  "insert_by le x [] = [x]"
| "insert_by le x (y # ys) = (if le x y then x # y # ys else y # insert_by le x ys)"

definition order_by :: "('r \<Rightarrow> 'r \<Rightarrow> bool) \<Rightarrow> 'r list \<Rightarrow> 'r list" where
  "order_by le rows = foldr (insert_by le) rows []"

fun sql_max :: "'a::linorder option list \<Rightarrow> 'a option" where
  "sql_max [] = None"
| "sql_max (None # xs) = sql_max xs"
| "sql_max (Some x # xs) = (case sql_max xs of None \<Rightarrow> Some x | Some y \<Rightarrow> Some (max x y))"

subsection \<open>LIKE and ILIKE\<close>

text \<open>
  A \<^verbatim>\<open>LIKE\<close> pattern: \<^verbatim>\<open>%\<close> matches any run of characters, \<^verbatim>\<open>_\<close> any one
  character, a backslash makes the next character literal. \<^verbatim>\<open>ILIKE\<close> compares without
  regard to case; the model folds the ASCII letters. A pattern that ends in a lone
  backslash is rejected by the engine; the patterns built here end in \<^verbatim>\<open>%\<close>, and the
  matcher gives \<open>False\<close> on such a pattern.
\<close>

fun like_match :: "string \<Rightarrow> string \<Rightarrow> bool" where
  "like_match [] s = (s = [])"
| "like_match (p # ps) s =
     (if p = CHR ''%'' then
        (like_match ps s \<or> (case s of [] \<Rightarrow> False | _ # t \<Rightarrow> like_match (p # ps) t))
      else if p = CHR ''_'' then
        (case s of [] \<Rightarrow> False | _ # t \<Rightarrow> like_match ps t)
      else if p = CHR 0x5C then
        (case ps of
           [] \<Rightarrow> False
         | q # qs \<Rightarrow> (case s of [] \<Rightarrow> False | c # t \<Rightarrow> c = q \<and> like_match qs t))
      else
        (case s of [] \<Rightarrow> False | c # t \<Rightarrow> c = p \<and> like_match ps t))"

text \<open>The characters a pattern does not take literally.\<close>

definition like_meta :: "char set" where
  "like_meta = {CHR ''%'', CHR ''_'', CHR 0x5C}"

definition lower_char :: "char \<Rightarrow> char" where
  "lower_char c =
     (case map_of (zip ''ABCDEFGHIJKLMNOPQRSTUVWXYZ'' ''abcdefghijklmnopqrstuvwxyz'') c of
        None \<Rightarrow> c
      | Some d \<Rightarrow> d)"

definition sql_ilike :: "string option \<Rightarrow> string \<Rightarrow> sql_bool" where
  "sql_ilike s pat =
     (case s of
        None \<Rightarrow> None
      | Some v \<Rightarrow> Some (like_match (map lower_char pat) (map lower_char v)))"

text \<open>JavaScript's \<^verbatim>\<open>String.prototype.includes\<close>.\<close>

fun starts_with :: "string \<Rightarrow> string \<Rightarrow> bool" where
  "starts_with s [] = True"
| "starts_with [] (c # sub) = False"
| "starts_with (d # s) (c # sub) = (d = c \<and> starts_with s sub)"

fun js_includes :: "string \<Rightarrow> string \<Rightarrow> bool" where
  "js_includes [] sub = (sub = [])"
| "js_includes (c # s) sub = (starts_with (c # s) sub \<or> js_includes s sub)"

subsection \<open>The tables (\<^verbatim>\<open>web/src/db/schema.ts\<close>)\<close>

text \<open>
  One record per table the claims read or write, a field per column, named after the
  drizzle field with a prefix for its table. A column without \<^verbatim>\<open>notNull()\<close> is nullable.
\<close>

record market =
  m_id :: int
  m_platform :: string
  m_platformId :: string
  m_title :: string
  m_description :: "string option"
  m_category :: "string option"
  m_subcategory :: "string option"
  m_status :: "string option"
  m_yesPrice :: "real option"
  m_noPrice :: "real option"
  m_volume :: "real option"
  m_liquidity :: "real option"
  m_closeTime :: "string option"
  m_url :: "string option"
  m_lastUpdated :: "string option"
  m_rawData :: "string option"

record marketPair =
  mp_id :: int
  mp_kalshiMarketId :: "int option"
  mp_polymarketMarketId :: "int option"
  mp_matchConfidence :: "real option"
  mp_matchReason :: "string option"
  mp_priceGap :: "real option"
  mp_createdAt :: "string option"
  mp_lastChecked :: "string option"

record priceSnapshot =
  ps_id :: int
  ps_marketId :: int
  ps_yesPrice :: "real option"
  ps_noPrice :: "real option"
  ps_volume :: "real option"
  ps_openInterest :: "real option"
  ps_bestBid :: "real option"
  ps_bestAsk :: "real option"
  ps_spread :: "real option"
  ps_timestamp :: "string option"

record alert =
  a_id :: int
  a_alertType :: string
  a_severity :: "string option"
  a_marketId :: "int option"
  a_pairId :: "int option"
  a_title :: string
  a_message :: "string option"
  a_data :: "string option"
  a_acknowledged :: "int option"
  a_triggeredAt :: "string option"

record trader =
  t_id :: int
  t_proxyWallet :: string
  t_userName :: "string option"
  t_profileImage :: "string option"
  t_xUsername :: "string option"
  t_verifiedBadge :: "int option"
  t_totalPnl :: "real option"
  t_totalVolume :: "real option"
  t_portfolioValue :: "real option"
  t_firstSeen :: "string option"
  t_lastUpdated :: "string option"

record traderPosition =
  tp_id :: int
  tp_traderId :: "int option"
  tp_proxyWallet :: string
  tp_conditionId :: "string option"
  tp_marketTitle :: "string option"
  tp_outcome :: "string option"
  tp_size :: "real option"
  tp_avgPrice :: "real option"
  tp_initialValue :: "real option"
  tp_currentValue :: "real option"
  tp_cashPnl :: "real option"
  tp_percentPnl :: "real option"
  tp_realizedPnl :: "real option"
  tp_curPrice :: "real option"
  tp_redeemable :: "int option"
  tp_eventSlug :: "string option"
  tp_snapshotTime :: "string option"

record traderWatchlistEntry =
  tw_id :: int
  tw_traderId :: int
  tw_notes :: "string option"
  tw_createdAt :: "string option"

text \<open>
  The store: the tables, and the sequence behind \<^verbatim>\<open>trader_watchlist.id\<close> (a
  \<^verbatim>\<open>serial\<close> column draws its value before the row's constraints are checked).
\<close>

record database =
  markets :: "market list"
  market_pairs :: "marketPair list"
  price_snapshots :: "priceSnapshot list"
  alerts :: "alert list"
  traders :: "trader list"
  trader_positions :: "traderPosition list"
  trader_watchlist :: "traderWatchlistEntry list"
  trader_watchlist_id_seq :: int

text \<open>What a rejected promise carries: the engine's message, or JavaScript's RangeError.\<close>

datatype error = DbError string | RangeError string

section \<open>The queries\<close>

subsection \<open>JavaScript values the queries test\<close>

text \<open>
  An optional string parameter is a \<open>string option\<close> (\<open>None\<close> is \<^verbatim>\<open>undefined\<close>). A
  destructuring default applies to \<^verbatim>\<open>undefined\<close> only; a string is falsy when it is empty.
\<close>

definition js_default :: "'a option \<Rightarrow> 'a \<Rightarrow> 'a" where
  "js_default v d = (case v of None \<Rightarrow> d | Some x \<Rightarrow> x)"

definition truthy :: "string option \<Rightarrow> bool" where
  "truthy v = (case v of None \<Rightarrow> False | Some s \<Rightarrow> s \<noteq> [])"

definition PAGE_SIZE :: nat where
  "PAGE_SIZE = 50"

definition DEFAULT_LIMIT :: nat where
  "DEFAULT_LIMIT = 50"

text \<open>\<^verbatim>\<open>OFFSET\<close>: the engine rejects a negative one.\<close>

definition sql_offset :: "int \<Rightarrow> 'r list \<Rightarrow> error + 'r list" where
  "sql_offset n rows =
     (if n < 0 then Inl (DbError ''OFFSET must not be negative'') else Inr (drop (nat n) rows))"

subsection \<open>\<^verbatim>\<open>getMarkets\<close> (\<^verbatim>\<open>web/src/db/queries/markets.ts\<close>)\<close>

record GetMarketsParams =
  p_platform :: "string option"
  p_status :: "string option"
  p_category :: "string option"
  p_search :: "string option"
  p_sort :: "string option"
  p_page :: "int option"

definition getMarkets_conditions :: "GetMarketsParams \<Rightarrow> (market \<Rightarrow> sql_bool) list" where
  "getMarkets_conditions params =
     (let platform = p_platform params;
          status = Some (js_default (p_status params) ''active'');
          category = p_category params;
          search = p_search params
      in (if truthy status \<and> status \<noteq> Some ''all''
          then [\<lambda>m. sql_eq (m_status m) status] else [])
       @ (if truthy platform \<and> platform \<noteq> Some ''all''
          then [\<lambda>m. sql_eq (Some (m_platform m)) platform] else [])
       @ (if truthy category \<and> category \<noteq> Some ''All'' \<and> category \<noteq> Some ''all''
          then [\<lambda>m. sql_eq (m_category m) category] else [])
       @ (case search of
            None \<Rightarrow> []
          | Some s \<Rightarrow>
              if s \<noteq> [] then [\<lambda>m. sql_ilike (Some (m_title m)) (''%'' @ s @ ''%'')] else []))"

definition getMarkets_where :: "GetMarketsParams \<Rightarrow> (market \<Rightarrow> sql_bool) option" where
  "getMarkets_where params =
     (let conditions = getMarkets_conditions params
      in if length conditions > 0 then Some (sql_and conditions) else None)"

text \<open>
  What each parameter demands of a row, read off the four \<^verbatim>\<open>if\<close>s: nothing when it is
  absent, empty or \<^verbatim>\<open>all\<close> (for the category also \<^verbatim>\<open>All\<close>), and otherwise that the
  column equals it, or for the search that the title matches the pattern
  \<^verbatim>\<open>%search%\<close> without regard to case.
\<close>

definition status_filter :: "GetMarketsParams \<Rightarrow> market \<Rightarrow> bool" where
  "status_filter params m =
     (let s = js_default (p_status params) ''active''
      in s = [] \<or> s = ''all'' \<or> m_status m = Some s)"

definition platform_filter :: "GetMarketsParams \<Rightarrow> market \<Rightarrow> bool" where
  "platform_filter params m =
     (case p_platform params of
        None \<Rightarrow> True
      | Some v \<Rightarrow> v = [] \<or> v = ''all'' \<or> m_platform m = v)"

definition category_filter :: "GetMarketsParams \<Rightarrow> market \<Rightarrow> bool" where
  "category_filter params m =
     (case p_category params of
        None \<Rightarrow> True
      | Some v \<Rightarrow> v = [] \<or> v = ''All'' \<or> v = ''all'' \<or> m_category m = Some v)"

definition search_filter :: "GetMarketsParams \<Rightarrow> market \<Rightarrow> bool" where
  "search_filter params m =
     (case p_search params of
        None \<Rightarrow> True
      | Some s \<Rightarrow> s = [] \<or> sql_ilike (Some (m_title m)) (''%'' @ s @ ''%'') = Some True)"

datatype market_column = Volume | Title | YesPrice

datatype order_term = Asc market_column | Desc market_column

definition getMarkets_orderBy :: "string \<Rightarrow> order_term" where
  "getMarkets_orderBy sortKey =
     (if sortKey = ''volume_asc'' then Asc Volume
      else if sortKey = ''title_asc'' then Asc Title
      else if sortKey = ''title_desc'' then Desc Title
      else if sortKey = ''yes_price_desc'' then Desc YesPrice
      else if sortKey = ''yes_price_asc'' then Asc YesPrice
      else Desc Volume)"

fun order_term_le :: "order_term \<Rightarrow> market \<Rightarrow> market \<Rightarrow> bool" where
  "order_term_le (Asc Volume) = sql_asc m_volume"
| "order_term_le (Desc Volume) = sql_desc m_volume"
| "order_term_le (Asc Title) = sql_asc (\<lambda>m. Some (m_title m))"
| "order_term_le (Desc Title) = sql_desc (\<lambda>m. Some (m_title m))"
| "order_term_le (Asc YesPrice) = sql_asc m_yesPrice"
| "order_term_le (Desc YesPrice) = sql_desc m_yesPrice"

record MarketsPage =
  data :: "market list"
  total :: nat
  page :: int
  pageSize :: nat
  totalPages :: nat

text \<open>
  The two queries of \<^verbatim>\<open>Promise.all\<close>: the page of rows and the count, under the same
  \<^verbatim>\<open>where\<close>. \<^verbatim>\<open>Math.ceil(count / PAGE_SIZE)\<close> is the ceiling of the quotient.
\<close>

definition getMarkets :: "database \<Rightarrow> GetMarketsParams \<Rightarrow> error + MarketsPage" where
  "getMarkets db params =
     (let sortKey = js_default (p_sort params) ''volume_desc'';
          pg = js_default (p_page params) 1;
          wh = getMarkets_where params;
          orderBy = getMarkets_orderBy sortKey;
          offset = (pg - 1) * int PAGE_SIZE;
          count = length (where_opt wh (markets db))
      in case sql_offset offset (order_by (order_term_le orderBy) (where_opt wh (markets db))) of
           Inl e \<Rightarrow> Inl e
         | Inr rows \<Rightarrow>
             Inr \<lparr> data = take PAGE_SIZE rows,
                   total = count,
                   page = pg,
                   pageSize = PAGE_SIZE,
                   totalPages = nat \<lceil>real count / real PAGE_SIZE\<rceil> \<rparr>)"

subsection \<open>Smart filters (\<^verbatim>\<open>web/src/db/queries/smart-filters.ts\<close>)\<close>

definition getNear5050Markets :: "database \<Rightarrow> nat \<Rightarrow> market list" where
  "getNear5050Markets db limit =
     take limit
       (order_by (sql_desc m_volume)
          (sql_where
             (sql_and
                [\<lambda>m. sql_eq (m_status m) (Some ''active''),
                 \<lambda>m. sql_gte (m_yesPrice m) (Some 0.45),
                 \<lambda>m. sql_lte (m_yesPrice m) (Some 0.55)])
             (markets db)))"

text \<open>
  \<^verbatim>\<open>FROM market_pairs mp JOIN markets m ON m.id = mp.polymarket_market_id OR
  m.id = mp.kalshi_market_id\<close>: the pairs of a row of each table that satisfy \<^verbatim>\<open>ON\<close>.
\<close>

definition sql_join :: "('a \<Rightarrow> 'b \<Rightarrow> sql_bool) \<Rightarrow> 'a list \<Rightarrow> 'b list \<Rightarrow> ('a \<times> 'b) list" where
  "sql_join on as bs = concat (map (\<lambda>a. map (Pair a) (sql_where (on a) bs)) as)"

definition highArb_on :: "marketPair \<Rightarrow> market \<Rightarrow> sql_bool" where
  "highArb_on mp m =
     sql_or2 (sql_eq (Some (m_id m)) (mp_polymarketMarketId mp))
             (sql_eq (Some (m_id m)) (mp_kalshiMarketId mp))"

definition highArb_where :: "marketPair \<times> market \<Rightarrow> sql_bool" where
  "highArb_where r =
     sql_and2 (sql_gte (sql_abs (Some (sql_coalesce (mp_priceGap (fst r)) 0))) (Some 0.03))
              (sql_eq (m_status (snd r)) (Some ''active''))"

definition getHighArbMarkets :: "database \<Rightarrow> nat \<Rightarrow> market list" where
  "getHighArbMarkets db limit =
     take limit
       (order_by (sql_desc_nulls_last m_volume)
          (remdups
             (map snd
                (sql_where highArb_where
                   (sql_join highArb_on (market_pairs db) (markets db))))))"

text \<open>
  The dispatcher. The three heuristics no property below is about (they cast free-form
  text to timestamps, or join the whale trades) are parameters.
\<close>

definition getSmartFilteredMarkets ::
  "(nat \<Rightarrow> error + market list) \<Rightarrow> (nat \<Rightarrow> error + market list) \<Rightarrow>
   (nat \<Rightarrow> error + market list) \<Rightarrow> database \<Rightarrow> string \<Rightarrow> nat \<Rightarrow> error + market list" where
  "getSmartFilteredMarkets getWhaleFavoriteMarkets getClosingSoonMarkets getHottestMarkets
     db filterKey limit =
     (if filterKey = ''whale_favorites'' then getWhaleFavoriteMarkets limit
      else if filterKey = ''closing_soon'' then getClosingSoonMarkets limit
      else if filterKey = ''near_5050'' then Inr (getNear5050Markets db limit)
      else if filterKey = ''high_arb'' then Inr (getHighArbMarkets db limit)
      else if filterKey = ''hottest_24h'' then getHottestMarkets limit
      else Inr [])"

subsection \<open>\<^verbatim>\<open>getPriceHistoryWithRange\<close> (\<^verbatim>\<open>web/src/db/queries/price-snapshots.ts\<close>)\<close>

text \<open>
  \<^verbatim>\<open>RANGE_HOURS\<close> is an object literal, and \<^verbatim>\<open>RANGE_HOURS[range]\<close> a property read: it
  finds the three own properties, and for a name that \<^verbatim>\<open>Object.prototype\<close> defines, the
  inherited function or object. Such a value is truthy, and as a number it is NaN.
\<close>

datatype js_value = JsNumber int | JsInherited

definition Object_prototype_names :: "string list" where
  "Object_prototype_names =
     [''constructor'', ''toString'', ''toLocaleString'', ''valueOf'', ''hasOwnProperty'',
      ''isPrototypeOf'', ''propertyIsEnumerable'', ''__proto__'', ''__defineGetter__'',
      ''__defineSetter__'', ''__lookupGetter__'', ''__lookupSetter__'']"

definition RANGE_HOURS :: "string \<Rightarrow> js_value option" where
  "RANGE_HOURS key =
     (if key = ''24h'' then Some (JsNumber 24)
      else if key = ''7d'' then Some (JsNumber 168)
      else if key = ''30d'' then Some (JsNumber 720)
      else if key \<in> set Object_prototype_names then Some JsInherited
      else None)"

text \<open>
  \<open>now\<close> is \<^verbatim>\<open>Date.now()\<close> in milliseconds and \<open>toISOString\<close> the rendering of an instant
  as ISO 8601 text; both are parameters. \<^verbatim>\<open>new Date(NaN).toISOString()\<close> throws a
  RangeError.
\<close>

definition getPriceHistory_conditions ::
  "int \<Rightarrow> (int \<Rightarrow> string) \<Rightarrow> int \<Rightarrow> string option \<Rightarrow> error + (priceSnapshot \<Rightarrow> sql_bool) list" where
  "getPriceHistory_conditions now toISOString marketId rng =
     (let conditions = [\<lambda>s. sql_eq (Some (ps_marketId s)) (Some marketId)]
      in if truthy rng \<and> rng \<noteq> Some ''all'' then
           (case RANGE_HOURS (js_default rng []) of
              None \<Rightarrow> Inr conditions
            | Some (JsNumber hours) \<Rightarrow>
                if hours \<noteq> 0 then
                  (let cutoff = toISOString (now - hours * 60 * 60 * 1000)
                   in Inr (conditions @ [\<lambda>s. sql_gte (ps_timestamp s) (Some cutoff)]))
                else Inr conditions
            | Some JsInherited \<Rightarrow> Inl (RangeError ''Invalid time value''))
         else Inr conditions)"

definition getPriceHistoryWithRange ::
  "int \<Rightarrow> (int \<Rightarrow> string) \<Rightarrow> database \<Rightarrow> int \<Rightarrow> string option \<Rightarrow> nat
     \<Rightarrow> error + priceSnapshot list" where
  "getPriceHistoryWithRange now toISOString db marketId rng limit =
     (case getPriceHistory_conditions now toISOString marketId rng of
        Inl e \<Rightarrow> Inl e
      | Inr conditions \<Rightarrow>
          Inr (take limit
                 (order_by (sql_desc ps_timestamp)
                    (sql_where (sql_and conditions) (price_snapshots db)))))"

subsection \<open>\<^verbatim>\<open>getLatestTraderPositions\<close> (\<^verbatim>\<open>web/src/db/queries/traders.ts\<close>)\<close>

text \<open>The first query: \<^verbatim>\<open>MAX(snapshot_time)\<close> over the trader's rows; NULL when there is none.\<close>

definition latest_snapshot_time :: "database \<Rightarrow> int \<Rightarrow> string option" where
  "latest_snapshot_time db traderId =
     sql_max (map tp_snapshotTime
       (sql_where (\<lambda>p. sql_eq (tp_traderId p) (Some traderId)) (trader_positions db)))"

definition getLatestTraderPositions :: "database \<Rightarrow> int \<Rightarrow> traderPosition list" where
  "getLatestTraderPositions db traderId =
     (let latestTime = latest_snapshot_time db traderId
      in if \<not> truthy latestTime then []
         else order_by (sql_desc tp_currentValue)
                (sql_where
                   (sql_and
                      [\<lambda>p. sql_eq (tp_traderId p) (Some traderId),
                       \<lambda>p. sql_eq (tp_snapshotTime p) latestTime])
                   (trader_positions db)))"

subsection \<open>\<^verbatim>\<open>getAllPairs\<close> (\<^verbatim>\<open>web/src/db/queries/pairs.ts\<close>)\<close>

text \<open>
  \<^verbatim>\<open>LEFT JOIN\<close>: a left row with no partner is kept once, with NULLs for the right side.
  A row of the result is the pair with its Kalshi and its Polymarket market, of which
  the query projects title, prices, volume and category. \<^verbatim>\<open>minGap\<close> is a number or
  \<^verbatim>\<open>undefined\<close>; zero is falsy.
\<close>

definition sql_left_join ::
  "('a \<Rightarrow> 'b \<Rightarrow> sql_bool) \<Rightarrow> 'a list \<Rightarrow> 'b list \<Rightarrow> ('a \<times> 'b option) list" where
  "sql_left_join on as bs =
     concat (map (\<lambda>a. case sql_where (on a) bs of
                         [] \<Rightarrow> [(a, None)]
                       | ms \<Rightarrow> map (\<lambda>b. (a, Some b)) ms) as)"

type_synonym pair_row = "(marketPair \<times> market option) \<times> market option"

definition pair_of :: "pair_row \<Rightarrow> marketPair" where
  "pair_of r = fst (fst r)"

definition getAllPairs :: "database \<Rightarrow> real option \<Rightarrow> pair_row list" where
  "getAllPairs db minGap =
     (let joined =
            sql_left_join (\<lambda>r pm. sql_eq (mp_polymarketMarketId (fst r)) (Some (m_id pm)))
              (sql_left_join (\<lambda>mp km. sql_eq (mp_kalshiMarketId mp) (Some (m_id km)))
                 (market_pairs db) (markets db))
              (markets db);
          kept =
            (case minGap of
               None \<Rightarrow> joined
             | Some g \<Rightarrow>
                 if g \<noteq> 0
                 then sql_where (\<lambda>r. sql_gte (sql_abs (mp_priceGap (pair_of r))) (Some g)) joined
                 else joined)
      in order_by (sql_desc (\<lambda>r. sql_abs (mp_priceGap (pair_of r)))) kept)"

section \<open>The two mutations\<close>

subsection \<open>\<^verbatim>\<open>acknowledgeAlert\<close> (\<^verbatim>\<open>web/src/db/queries/alerts.ts\<close>)\<close>

definition sql_update :: "('r \<Rightarrow> sql_bool) \<Rightarrow> ('r \<Rightarrow> 'r) \<Rightarrow> 'r list \<Rightarrow> 'r list" where
  "sql_update c f rows = map (\<lambda>r. if c r = Some True then f r else r) rows"

definition sql_delete :: "('r \<Rightarrow> sql_bool) \<Rightarrow> 'r list \<Rightarrow> 'r list" where
  "sql_delete c rows = filter (\<lambda>r. c r \<noteq> Some True) rows"

definition acknowledgeAlert :: "database \<Rightarrow> int \<Rightarrow> database" where
  "acknowledgeAlert db alertId =
     db\<lparr>alerts :=
          sql_update (\<lambda>a. sql_eq (Some (a_id a)) (Some alertId))
            (\<lambda>a. a\<lparr>a_acknowledged := Some 1\<rparr>) (alerts db)\<rparr>"

subsection \<open>The watchlist (\<^verbatim>\<open>web/src/db/queries/traders.ts\<close>)\<close>

text \<open>
  The insert: the \<^verbatim>\<open>serial\<close> id is drawn, then the primary key, the unique constraint
  on \<^verbatim>\<open>trader_id\<close> and the foreign key to \<^verbatim>\<open>traders\<close> are checked; the messages are
  PostgreSQL's. A failed insert leaves the table as it was (the sequence has moved).
\<close>

definition pkey_violation :: string where
  \<open>pkey_violation =
     ''duplicate key value violates unique constraint "trader_watchlist_pkey"''\<close>

definition unique_violation :: string where
  \<open>unique_violation =
     ''duplicate key value violates unique constraint "trader_watchlist_trader_id_unique"''\<close>

definition fkey_violation :: string where
  \<open>fkey_violation =
     ''insert or update on table "trader_watchlist" violates foreign key constraint "trader_watchlist_trader_id_traders_id_fk"''\<close>

definition insert_trader_watchlist ::
  "database \<Rightarrow> int \<Rightarrow> string \<Rightarrow> (error + unit) \<times> database" where
  "insert_trader_watchlist db traderId createdAt =
     (let new_id = trader_watchlist_id_seq db + 1;
          db1 = db\<lparr>trader_watchlist_id_seq := new_id\<rparr>
      in if new_id \<in> set (map tw_id (trader_watchlist db))
           then (Inl (DbError pkey_violation), db1)
         else if traderId \<in> set (map tw_traderId (trader_watchlist db))
           then (Inl (DbError unique_violation), db1)
         else if traderId \<notin> set (map t_id (traders db))
           then (Inl (DbError fkey_violation), db1)
         else (Inr (),
               db1\<lparr>trader_watchlist :=
                     trader_watchlist db @
                       [\<lparr> tw_id = new_id, tw_traderId = traderId,
                          tw_notes = Some [], tw_createdAt = Some createdAt \<rparr>]\<rparr>))"

text \<open>
  \<^verbatim>\<open>String(e)\<close> in the \<^verbatim>\<open>catch\<close> is the text of whatever the database library throws
  for a rejected insert. The library is not part of the repository and its version is
  not fixed there, so the rendering is a parameter \<open>string_of\<close> of \<^verbatim>\<open>addToWatchlist\<close> and
  of the action that calls it.
\<close>

definition toLowerCase :: "string \<Rightarrow> string" where
  "toLowerCase s = map lower_char s"

definition addToWatchlist ::
  "(error \<Rightarrow> string) \<Rightarrow> database \<Rightarrow> int \<Rightarrow> string \<Rightarrow> (error + bool) \<times> database" where
  "addToWatchlist string_of db traderId createdAt =
     (case insert_trader_watchlist db traderId createdAt of
        (Inr _, db') \<Rightarrow> (Inr True, db')
      | (Inl e, db') \<Rightarrow>
          (let msg = toLowerCase (string_of e)
           in if js_includes msg ''unique'' \<or> js_includes msg ''duplicate''
              then (Inr False, db')
              else (Inl e, db')))"

text \<open>
  Two renderings a library gives. The driver's own error reaches the \<^verbatim>\<open>catch\<close> as it
  is: its text is its name and the engine's message. Or the query builder wraps it
  (drizzle-orm does from version 0.44 on): the text is then that of the failed
  statement, followed by its parameters, and the engine's message is kept in the
  error's cause only.
\<close>

definition driver_error_text :: "error \<Rightarrow> string" where
  "driver_error_text e =
     (case e of
        DbError msg \<Rightarrow> ''NeonDbError: '' @ msg
      | RangeError msg \<Rightarrow> ''RangeError: '' @ msg)"


definition removeFromWatchlist :: "database \<Rightarrow> int \<Rightarrow> database" where
  "removeFromWatchlist db traderId =
     db\<lparr>trader_watchlist :=
          sql_delete (\<lambda>w. sql_eq (Some (tw_traderId w)) (Some traderId)) (trader_watchlist db)\<rparr>"

subsection \<open>The server actions (\<^verbatim>\<open>app/watchlist/actions.ts\<close>, \<^verbatim>\<open>app/alerts/actions.ts\<close>)\<close>

text \<open>
  The operations the dashboard exposes that write. Revalidating the cached pages does
  not touch the store. \<open>createdAt\<close> is the instant of the call, as text.
\<close>

datatype action =
    ToggleWatchlist int bool string
  | AcknowledgeAlert int

fun run_action ::
  "(error \<Rightarrow> string) \<Rightarrow> database \<Rightarrow> action \<Rightarrow> (error + unit) \<times> database" where
  "run_action string_of db (ToggleWatchlist traderId isWatched createdAt) =
     (if isWatched then (Inr (), removeFromWatchlist db traderId)
      else (case addToWatchlist string_of db traderId createdAt of
              (Inl e, db') \<Rightarrow> (Inl e, db')
            | (Inr _, db') \<Rightarrow> (Inr (), db')))"
| "run_action string_of db (AcknowledgeAlert alertId) = (Inr (), acknowledgeAlert db alertId)"

fun run_actions :: "(error \<Rightarrow> string) \<Rightarrow> database \<Rightarrow> action list \<Rightarrow> database" where
  "run_actions string_of db [] = db"
| "run_actions string_of db (a # as) = run_actions string_of (snd (run_action string_of db a)) as"

section \<open>A small store\<close>

text \<open>
  Four markets, three pairs, a few snapshots, positions and alerts: the store on which
  the properties below are run.
\<close>

definition mk_market ::
  "int \<Rightarrow> string \<Rightarrow> string \<Rightarrow> string option \<Rightarrow> string option \<Rightarrow> real option \<Rightarrow> real option
     \<Rightarrow> market" where
  "mk_market i pf title cat st yes vol =
     \<lparr> m_id = i, m_platform = pf, m_platformId = [], m_title = title,
       m_description = Some [], m_category = cat, m_subcategory = Some [], m_status = st,
       m_yesPrice = yes, m_noPrice = None, m_volume = vol, m_liquidity = None,
       m_closeTime = None, m_url = Some [], m_lastUpdated = None, m_rawData = None \<rparr>"

definition btc :: market where
  "btc = mk_market 1 ''polymarket'' ''BTC 100k'' (Some ''Crypto'') (Some ''active'')
           (Some 0.5) (Some 1000)"

definition fed :: market where
  "fed = mk_market 2 ''kalshi'' ''Fed cut'' (Some ''Economics'') (Some ''active'')
           (Some 0.45) None"

definition vote :: market where
  "vote = mk_market 3 ''kalshi'' ''Vote'' (Some ''Politics'') (Some ''resolved'')
            (Some 0.9) (Some 5000)"

definition rain :: market where
  "rain = mk_market 4 ''polymarket'' ''Rain'' (Some ''Weather'') (Some ''active'')
            (Some 0.2) (Some 10)"

definition mk_pair :: "int \<Rightarrow> int option \<Rightarrow> int option \<Rightarrow> real option \<Rightarrow> marketPair" where
  "mk_pair i k p gap =
     \<lparr> mp_id = i, mp_kalshiMarketId = k, mp_polymarketMarketId = p,
       mp_matchConfidence = Some 0, mp_matchReason = Some [], mp_priceGap = gap,
       mp_createdAt = Some [], mp_lastChecked = None \<rparr>"

definition mk_snapshot :: "int \<Rightarrow> int \<Rightarrow> string option \<Rightarrow> priceSnapshot" where
  "mk_snapshot i m ts =
     \<lparr> ps_id = i, ps_marketId = m, ps_yesPrice = None, ps_noPrice = None, ps_volume = None,
       ps_openInterest = None, ps_bestBid = None, ps_bestAsk = None, ps_spread = None,
       ps_timestamp = ts \<rparr>"

definition mk_position :: "int \<Rightarrow> int option \<Rightarrow> real option \<Rightarrow> string option \<Rightarrow> traderPosition" where
  "mk_position i t v ts =
     \<lparr> tp_id = i, tp_traderId = t, tp_proxyWallet = ''0x1'', tp_conditionId = Some [],
       tp_marketTitle = Some [], tp_outcome = Some [], tp_size = None, tp_avgPrice = None,
       tp_initialValue = None, tp_currentValue = v, tp_cashPnl = None, tp_percentPnl = None,
       tp_realizedPnl = None, tp_curPrice = None, tp_redeemable = Some 0,
       tp_eventSlug = Some [], tp_snapshotTime = ts \<rparr>"

definition mk_alert :: "int \<Rightarrow> int option \<Rightarrow> alert" where
  "mk_alert i ack =
     \<lparr> a_id = i, a_alertType = ''price_move'', a_severity = Some ''info'', a_marketId = None,
       a_pairId = None, a_title = ''moved'', a_message = Some [], a_data = None,
       a_acknowledged = ack, a_triggeredAt = Some [] \<rparr>"

definition mk_trader :: "int \<Rightarrow> trader" where
  "mk_trader i =
     \<lparr> t_id = i, t_proxyWallet = ''0x1'', t_userName = Some [], t_profileImage = Some [],
       t_xUsername = Some [], t_verifiedBadge = Some 0, t_totalPnl = None,
       t_totalVolume = None, t_portfolioValue = None, t_firstSeen = Some [],
       t_lastUpdated = Some [] \<rparr>"

definition store :: database where
  "store =
     \<lparr> markets = [btc, fed, vote, rain],
       market_pairs =
         [mk_pair 1 (Some 3) (Some 1) (Some 0.1),
          mk_pair 2 (Some 2) (Some 4) None,
          mk_pair 3 (Some 2) None (Some (- 0.05))],
       price_snapshots =
         [mk_snapshot 1 1 (Some ''2026-01-01T00:00:00.000Z''),
          mk_snapshot 2 1 (Some ''2026-01-03T00:00:00.000Z''),
          mk_snapshot 3 2 (Some ''2026-01-03T00:00:00.000Z''),
          mk_snapshot 4 1 (Some ''2026-01-02T12:00:00.000Z'')],
       alerts = [mk_alert 1 (Some 0), mk_alert 2 (Some 1)],
       traders = [mk_trader 7, mk_trader 8],
       trader_positions =
         [mk_position 1 (Some 7) (Some 5) (Some ''2026-01-01''),
          mk_position 2 (Some 7) (Some 9) (Some ''2026-01-02''),
          mk_position 3 (Some 7) (Some 20) (Some ''2026-01-02''),
          mk_position 4 (Some 8) (Some 1) (Some [])],
       trader_watchlist =
         [\<lparr> tw_id = 1, tw_traderId = 7, tw_notes = Some [], tw_createdAt = Some [] \<rparr>],
       trader_watchlist_id_seq = 1 \<rparr>"

definition no_params :: GetMarketsParams where
  "no_params =
     \<lparr> p_platform = None, p_status = None, p_category = None, p_search = None,
       p_sort = None, p_page = None \<rparr>"

section \<open>Properties\<close>

subsection \<open>Sorting and conditions\<close>

lemma set_insert_by: "set (insert_by le x xs) = insert x (set xs)"
  by (induction xs) auto

lemma set_order_by: "set (order_by le xs) = set xs"
  by (induction xs) (simp_all add: order_by_def set_insert_by)

lemma length_insert_by: "length (insert_by le x xs) = Suc (length xs)"
  by (induction xs) auto

lemma length_order_by: "length (order_by le xs) = length xs"
  by (induction xs) (simp_all add: order_by_def length_insert_by)

lemma distinct_insert_by: "distinct (insert_by le x xs) = (x \<notin> set xs \<and> distinct xs)"
  by (induction xs) (auto simp: set_insert_by)

lemma distinct_order_by: "distinct (order_by le xs) = distinct xs"
  by (induction xs) (simp_all add: order_by_def distinct_insert_by set_order_by[unfolded order_by_def])

lemma sorted_wrt_insert_by:
  assumes total: "\<And>a b. le a b \<or> le b a"
    and trans: "\<And>a b c. le a b \<Longrightarrow> le b c \<Longrightarrow> le a c"
    and sorted: "sorted_wrt le xs"
  shows "sorted_wrt le (insert_by le x xs)"
  using sorted
proof (induction xs)
  case Nil
  then show ?case by simp
next
  case (Cons y ys)
  show ?case
  proof (cases "le x y")
    case True
    with Cons.prems show ?thesis by (auto intro: trans)
  next
    case False
    with total have "le y x" by blast
    with False Cons show ?thesis by (auto simp: set_insert_by)
  qed
qed

lemma sorted_wrt_order_by:
  assumes total: "\<And>a b. le a b \<or> le b a"
    and trans: "\<And>a b c. le a b \<Longrightarrow> le b c \<Longrightarrow> le a c"
  shows "sorted_wrt le (order_by le xs)"
proof (induction xs)
  case Nil
  then show ?case by (simp add: order_by_def)
next
  case (Cons x xs)
  then show ?case
    using sorted_wrt_insert_by[of le "order_by le xs" x, OF total trans]
    by (simp add: order_by_def)
qed

lemma sql_desc_total: "sql_desc key a b \<or> sql_desc key b a"
  by (auto simp: sql_desc_def split: option.splits)

lemma sql_desc_trans: "sql_desc key a b \<Longrightarrow> sql_desc key b c \<Longrightarrow> sql_desc key a c"
  by (auto simp: sql_desc_def split: option.splits)

lemma sql_asc_total: "sql_asc key a b \<or> sql_asc key b a"
  by (auto simp: sql_asc_def split: option.splits)

lemma sql_asc_trans: "sql_asc key a b \<Longrightarrow> sql_asc key b c \<Longrightarrow> sql_asc key a c"
  by (auto simp: sql_asc_def split: option.splits)

lemma sql_desc_nulls_last_total: "sql_desc_nulls_last key a b \<or> sql_desc_nulls_last key b a"
  by (auto simp: sql_desc_nulls_last_def split: option.splits)

lemma sql_desc_nulls_last_trans:
  "sql_desc_nulls_last key a b \<Longrightarrow> sql_desc_nulls_last key b c \<Longrightarrow> sql_desc_nulls_last key a c"
  by (auto simp: sql_desc_nulls_last_def split: option.splits)

lemma sorted_order_by_desc: "sorted_wrt (sql_desc key) (order_by (sql_desc key) xs)"
  using sql_desc_total[of key] sql_desc_trans[of key] by (intro sorted_wrt_order_by) blast+

lemma sorted_order_by_asc: "sorted_wrt (sql_asc key) (order_by (sql_asc key) xs)"
  using sql_asc_total[of key] sql_asc_trans[of key] by (intro sorted_wrt_order_by) blast+

lemma sorted_order_by_desc_nulls_last:
  "sorted_wrt (sql_desc_nulls_last key) (order_by (sql_desc_nulls_last key) xs)"
  using sql_desc_nulls_last_total[of key] sql_desc_nulls_last_trans[of key]
  by (intro sorted_wrt_order_by) blast+

lemma sorted_order_term: "sorted_wrt (order_term_le ob) (order_by (order_term_le ob) xs)"
proof (cases ob)
  case (Asc c)
  then show ?thesis by (cases c) (simp_all add: sorted_order_by_asc)
next
  case (Desc c)
  then show ?thesis by (cases c) (simp_all add: sorted_order_by_desc)
qed

lemma sql_and_true: "sql_and cs r = Some True \<longleftrightarrow> (\<forall>c\<in>set cs. c r = Some True)"
proof (induction cs r rule: sql_and.induct)
  case (3 c d ds r)
  have "sql_and2 x y = Some True \<longleftrightarrow> x = Some True \<and> y = Some True" for x y
    by (cases "(x, y)" rule: sql_and2.cases) auto
  with 3 show ?case by simp
qed simp_all

lemma set_sql_where: "set (sql_where c rows) = {r \<in> set rows. c r = Some True}"
  by (simp add: sql_where_def)

lemma sql_and2_true: "sql_and2 x y = Some True \<longleftrightarrow> x = Some True \<and> y = Some True"
  by (cases "(x, y)" rule: sql_and2.cases) auto

lemma sql_or2_true: "sql_or2 x y = Some True \<longleftrightarrow> x = Some True \<or> y = Some True"
  by (cases "(x, y)" rule: sql_or2.cases) auto


subsection \<open>Pagination of \<^verbatim>\<open>getMarkets\<close>\<close>

lemmas store_defs = store_def btc_def fed_def vote_def rain_def mk_market_def mk_pair_def
  mk_snapshot_def mk_position_def mk_alert_def mk_trader_def no_params_def




text \<open>Page 0 gives a negative offset, which the engine rejects.\<close>

lemma getMarkets_page_zero:
  "getMarkets db (params\<lparr>p_page := Some 0\<rparr>) = Inl (DbError ''OFFSET must not be negative'')"
  by (simp add: getMarkets_def Let_def sql_offset_def js_default_def PAGE_SIZE_def)

subsection \<open>The \<^verbatim>\<open>near_5050\<close> filter\<close>

lemma near5050_cond:
  "sql_and
     [\<lambda>m. sql_eq (m_status m) (Some ''active''),
      \<lambda>m. sql_gte (m_yesPrice m) (Some 0.45),
      \<lambda>m. sql_lte (m_yesPrice m) (Some 0.55)] m = Some True
   \<longleftrightarrow> m_status m = Some ''active'' \<and> (case m_yesPrice m of None \<Rightarrow> False | Some y \<Rightarrow> 0.45 \<le> y \<and> y \<le> 0.55)"
  by (auto simp: sql_and2_true sql_eq_def sql_gte_def sql_lte_def split: option.splits)

text \<open>
  Claim C8. For every limit, the dispatcher on \<^verbatim>\<open>near_5050\<close> returns the first \<open>limit\<close>
  rows of a list sorted by volume descending (\<^verbatim>\<open>DESC\<close>, so a NULL volume sorts first)
  whose members are exactly the markets that are active and whose yes-price lies in the
  closed interval from 0.45 to 0.55, both ends included; a market with no yes-price is
  not among them.
\<close>

theorem near_5050_closed_interval:
  "\<exists>rows. getSmartFilteredMarkets whale closing hottest db ''near_5050'' limit = Inr (take limit rows)
     \<and> getNear5050Markets db limit = take limit rows
     \<and> length (take limit rows) \<le> limit
     \<and> sorted_wrt (sql_desc m_volume) rows
     \<and> set rows = {m \<in> set (markets db).
           m_status m = Some ''active'' \<and> (case m_yesPrice m of None \<Rightarrow> False | Some y \<Rightarrow> 0.45 \<le> y \<and> y \<le> 0.55)}"
proof -
  let ?c = "sql_and
     [\<lambda>m. sql_eq (m_status m) (Some ''active''),
      \<lambda>m. sql_gte (m_yesPrice m) (Some 0.45),
      \<lambda>m. sql_lte (m_yesPrice m) (Some 0.55)]"
  let ?rows = "order_by (sql_desc m_volume) (sql_where ?c (markets db))"
  have "getNear5050Markets db limit = take limit ?rows"
    by (simp add: getNear5050Markets_def)
  moreover have "getSmartFilteredMarkets whale closing hottest db ''near_5050'' limit = Inr (take limit ?rows)"
    by (simp add: getSmartFilteredMarkets_def getNear5050Markets_def)
  moreover have "sorted_wrt (sql_desc m_volume) ?rows"
    by (rule sorted_order_by_desc)
  moreover have "set ?rows = {m \<in> set (markets db).
           m_status m = Some ''active'' \<and> (case m_yesPrice m of None \<Rightarrow> False | Some y \<Rightarrow> 0.45 \<le> y \<and> y \<le> 0.55)}"
    unfolding set_order_by set_sql_where near5050_cond ..
  ultimately show ?thesis by (intro exI[of _ ?rows]) simp
qed

text \<open>
  On the small store: the market at exactly 0.45 is kept, the one at 0.2 and the
  resolved one are not.
\<close>

theorem near_5050_closed_interval_witness:
  "\<exists>rows. getSmartFilteredMarkets (\<lambda>_. Inr []) (\<lambda>_. Inr []) (\<lambda>_. Inr []) store ''near_5050'' 50
            = Inr (take 50 rows)
     \<and> fed \<in> set rows \<and> m_yesPrice fed = Some 0.45 \<and> rain \<notin> set rows \<and> vote \<notin> set rows"
proof -
  from near_5050_closed_interval[of "\<lambda>_. Inr []" "\<lambda>_. Inr []" "\<lambda>_. Inr []" store 50]
  obtain rows where
    r: "getSmartFilteredMarkets (\<lambda>_. Inr []) (\<lambda>_. Inr []) (\<lambda>_. Inr []) store ''near_5050'' 50
          = Inr (take 50 rows)"
       "set rows = {m \<in> set (markets store).
           m_status m = Some ''active'' \<and> (case m_yesPrice m of None \<Rightarrow> False | Some y \<Rightarrow> 0.45 \<le> y \<and> y \<le> 0.55)}"
    by blast
  have "fed \<in> set rows" "rain \<notin> set rows" "vote \<notin> set rows" "m_yesPrice fed = Some 0.45"
    unfolding r(2) by (simp_all add: store_defs)
  with r(1) show ?thesis by blast
qed

lemma near_store: "getNear5050Markets store 50 = [fed, btc]"
  by (simp add: getNear5050Markets_def store_defs sql_where_def sql_eq_def sql_gte_def sql_lte_def
      order_by_def sql_desc_def sql_and2_true)

subsection \<open>The \<^verbatim>\<open>high_arb\<close> filter\<close>

lemma set_sql_join:
  "set (sql_join on as bs) = {(a, b). a \<in> set as \<and> b \<in> set bs \<and> on a b = Some True}"
  by (auto simp: sql_join_def set_sql_where)

lemma highArb_on_true:
  "highArb_on mp m = Some True \<longleftrightarrow>
     mp_polymarketMarketId mp = Some (m_id m) \<or> mp_kalshiMarketId mp = Some (m_id m)"
  by (auto simp: highArb_on_def sql_or2_true sql_eq_def split: option.splits)

lemma highArb_where_true:
  "highArb_where (mp, m) = Some True \<longleftrightarrow>
     0.03 \<le> \<bar>sql_coalesce (mp_priceGap mp) 0\<bar> \<and> m_status m = Some ''active''"
  by (auto simp: highArb_where_def sql_and2_true sql_eq_def sql_gte_def sql_abs_def
      split: option.splits)

text \<open>
  Claim C4, as amended. For every limit, the dispatcher on \<^verbatim>\<open>high_arb\<close> returns the
  first \<open>limit\<close> rows of a duplicate-free list, sorted by volume descending with NULLs
  last, whose members are exactly the markets that are active and are the Polymarket or
  the Kalshi side of some pair whose price gap, NULL counted as 0, is at least 0.03 in
  absolute value.
\<close>

theorem high_arb_active_markets:
  "\<exists>rows. getSmartFilteredMarkets whale closing hottest db ''high_arb'' limit = Inr (take limit rows)
     \<and> getHighArbMarkets db limit = take limit rows
     \<and> length (take limit rows) \<le> limit
     \<and> distinct rows
     \<and> sorted_wrt (sql_desc_nulls_last m_volume) rows
     \<and> set rows = {m \<in> set (markets db).
           m_status m = Some ''active'' \<and>
           (\<exists>mp \<in> set (market_pairs db).
              0.03 \<le> \<bar>sql_coalesce (mp_priceGap mp) 0\<bar> \<and>
              (mp_polymarketMarketId mp = Some (m_id m) \<or> mp_kalshiMarketId mp = Some (m_id m)))}"
proof -
  let ?kept = "sql_where highArb_where (sql_join highArb_on (market_pairs db) (markets db))"
  let ?rows = "order_by (sql_desc_nulls_last m_volume) (remdups (map snd ?kept))"
  have "getHighArbMarkets db limit = take limit ?rows"
    by (simp add: getHighArbMarkets_def)
  moreover have "getSmartFilteredMarkets whale closing hottest db ''high_arb'' limit
      = Inr (take limit ?rows)"
    by (simp add: getSmartFilteredMarkets_def getHighArbMarkets_def)
  moreover have "distinct ?rows"
    by (simp add: distinct_order_by)
  moreover have "sorted_wrt (sql_desc_nulls_last m_volume) ?rows"
    by (rule sorted_order_by_desc_nulls_last)
  moreover have "set ?rows = {m \<in> set (markets db).
           m_status m = Some ''active'' \<and>
           (\<exists>mp \<in> set (market_pairs db).
              0.03 \<le> \<bar>sql_coalesce (mp_priceGap mp) 0\<bar> \<and>
              (mp_polymarketMarketId mp = Some (m_id m) \<or> mp_kalshiMarketId mp = Some (m_id m)))}"
    by (auto simp: set_order_by set_sql_where set_sql_join highArb_on_true highArb_where_true
        image_iff)
  ultimately show ?thesis by (intro exI[of _ ?rows]) simp
qed

lemma high_arb_store: "getHighArbMarkets store 50 = [btc, fed]"
  by (simp add: getHighArbMarkets_def store_defs sql_join_def sql_where_def highArb_on_def
      highArb_where_def sql_eq_def sql_gte_def sql_abs_def sql_coalesce_def sql_and2_true
      sql_or2_true order_by_def sql_desc_nulls_last_def)

theorem high_arb_active_markets_witness:
  "\<exists>rows. getSmartFilteredMarkets (\<lambda>_. Inr []) (\<lambda>_. Inr []) (\<lambda>_. Inr []) store ''high_arb'' 50
            = Inr (take 50 rows)
     \<and> distinct rows \<and> btc \<in> set rows \<and> fed \<in> set rows \<and> rain \<notin> set rows"
proof -
  from high_arb_active_markets[of "\<lambda>_. Inr []" "\<lambda>_. Inr []" "\<lambda>_. Inr []" store 50]
  obtain rows where
    r: "getSmartFilteredMarkets (\<lambda>_. Inr []) (\<lambda>_. Inr []) (\<lambda>_. Inr []) store ''high_arb'' 50
          = Inr (take 50 rows)"
       "distinct rows"
       "set rows = {m \<in> set (markets store).
           m_status m = Some ''active'' \<and>
           (\<exists>mp \<in> set (market_pairs store).
              0.03 \<le> \<bar>sql_coalesce (mp_priceGap mp) 0\<bar> \<and>
              (mp_polymarketMarketId mp = Some (m_id m) \<or> mp_kalshiMarketId mp = Some (m_id m)))}"
    by blast
  have "btc \<in> set rows" "fed \<in> set rows" "rain \<notin> set rows"
    unfolding r(3) by (simp_all add: store_defs sql_coalesce_def)
  with r(1,2) show ?thesis by blast
qed

text \<open>
  Claim C4 as stated makes membership in such a pair the only condition. The resolved
  market of the small store is the Kalshi side of a pair with gap 0.1 and is not
  returned, though the limit is not reached.
\<close>

theorem high_arb_counterexample:
  "vote \<in> set (markets store)
   \<and> mk_pair 1 (Some 3) (Some 1) (Some 0.1) \<in> set (market_pairs store)
   \<and> mp_kalshiMarketId (mk_pair 1 (Some 3) (Some 1) (Some 0.1)) = Some (m_id vote)
   \<and> 0.03 \<le> \<bar>sql_coalesce (mp_priceGap (mk_pair 1 (Some 3) (Some 1) (Some 0.1))) 0\<bar>
   \<and> vote \<notin> set (getHighArbMarkets store 50)
   \<and> length (getHighArbMarkets store 50) < 50"
  by (simp add: high_arb_store) (simp add: store_defs sql_coalesce_def)

subsection \<open>\<^verbatim>\<open>getAllPairs\<close> and a zero or absent \<^verbatim>\<open>minGap\<close>\<close>

lemma fst_set_left_join: "fst ` set (sql_left_join on as bs) = set as"
proof -
  have one: "fst ` set (case sql_where (on a) bs of [] \<Rightarrow> [(a, None)]
                         | ms \<Rightarrow> map (\<lambda>b. (a, Some b)) ms) = {a}" for a
    by (cases "sql_where (on a) bs") (auto simp: image_iff)
  have "fst ` set (sql_left_join on as bs)
      = (\<Union>a\<in>set as. fst ` set (case sql_where (on a) bs of [] \<Rightarrow> [(a, None)]
                         | ms \<Rightarrow> map (\<lambda>b. (a, Some b)) ms))"
    by (simp add: sql_left_join_def image_UN)
  also have "\<dots> = set as" by (simp only: one) simp
  finally show ?thesis .
qed

lemma pair_of_joined:
  "pair_of ` set (sql_left_join on2 (sql_left_join on1 as bs) cs) = set as"
proof -
  have "pair_of ` set (sql_left_join on2 (sql_left_join on1 as bs) cs)
      = fst ` fst ` set (sql_left_join on2 (sql_left_join on1 as bs) cs)"
    by (simp add: image_image pair_of_def)
  then show ?thesis by (simp only: fst_set_left_join)
qed

lemma gap_cond:
  "sql_gte (sql_abs gap) (Some g) = Some True \<longleftrightarrow> (case gap of None \<Rightarrow> False | Some x \<Rightarrow> g \<le> \<bar>x\<bar>)"
  by (simp add: sql_gte_def sql_abs_def split: option.splits)

text \<open>
  Claim C10. \<^verbatim>\<open>getAllPairs\<close> with \<^verbatim>\<open>minGap = 0\<close> is \<^verbatim>\<open>getAllPairs\<close> with no
  \<^verbatim>\<open>minGap\<close>: no gap filter is applied, every pair of the table is in the result, and
  so is every pair whose price gap is NULL. For a \<^verbatim>\<open>minGap\<close> above 0 the pairs of the
  result are exactly the pairs whose gap is not NULL and at least \<^verbatim>\<open>minGap\<close> in absolute
  value: no row of the result has a NULL gap.
\<close>

theorem getAllPairs_minGap:
  "getAllPairs db (Some 0) = getAllPairs db None
   \<and> pair_of ` set (getAllPairs db None) = set (market_pairs db)
   \<and> (\<forall>mp \<in> set (market_pairs db).
         mp_priceGap mp = None \<longrightarrow> mp \<in> pair_of ` set (getAllPairs db (Some 0)))
   \<and> (0 < g \<longrightarrow>
         pair_of ` set (getAllPairs db (Some g))
           = {mp \<in> set (market_pairs db).
                case mp_priceGap mp of None \<Rightarrow> False | Some x \<Rightarrow> g \<le> \<bar>x\<bar>}
         \<and> (\<forall>r \<in> set (getAllPairs db (Some g)). mp_priceGap (pair_of r) \<noteq> None))"
proof -
  let ?joined = "sql_left_join (\<lambda>r pm. sql_eq (mp_polymarketMarketId (fst r)) (Some (m_id pm)))
              (sql_left_join (\<lambda>mp km. sql_eq (mp_kalshiMarketId mp) (Some (m_id km)))
                 (market_pairs db) (markets db))
              (markets db)"
  have zero: "getAllPairs db (Some 0) = getAllPairs db None"
    by (simp add: getAllPairs_def)
  have all: "pair_of ` set (getAllPairs db None) = set (market_pairs db)"
    by (simp add: getAllPairs_def set_order_by pair_of_joined)
  have pos: "set (getAllPairs db (Some g))
      = {r \<in> set ?joined. case mp_priceGap (pair_of r) of None \<Rightarrow> False | Some x \<Rightarrow> g \<le> \<bar>x\<bar>}"
    if "0 < g"
    using that by (simp add: getAllPairs_def set_order_by set_sql_where gap_cond)
  have img: "pair_of ` set (getAllPairs db (Some g))
           = {mp \<in> set (market_pairs db).
                case mp_priceGap mp of None \<Rightarrow> False | Some x \<Rightarrow> g \<le> \<bar>x\<bar>}" if "0 < g"
  proof -
    have "pair_of ` {r \<in> set ?joined. case mp_priceGap (pair_of r) of None \<Rightarrow> False | Some x \<Rightarrow> g \<le> \<bar>x\<bar>}
        = {mp \<in> pair_of ` set ?joined. case mp_priceGap mp of None \<Rightarrow> False | Some x \<Rightarrow> g \<le> \<bar>x\<bar>}"
      by blast
    then show ?thesis by (simp only: pos[OF that] pair_of_joined)
  qed
  have nonnull: "mp_priceGap (pair_of r) \<noteq> None" if "0 < g" "r \<in> set (getAllPairs db (Some g))" for r
    using that by (auto simp: pos split: option.splits)
  show ?thesis using zero all img nonnull by auto
qed

theorem getAllPairs_minGap_witness:
  "getAllPairs store (Some 0) = getAllPairs store None
   \<and> mk_pair 2 (Some 2) (Some 4) None \<in> pair_of ` set (getAllPairs store (Some 0))
   \<and> mk_pair 2 (Some 2) (Some 4) None \<notin> pair_of ` set (getAllPairs store (Some 0.05))
   \<and> mk_pair 3 (Some 2) None (Some (- 0.05)) \<in> pair_of ` set (getAllPairs store (Some 0.05))"
proof -
  note t = getAllPairs_minGap[of store "0.05"]
  have a: "getAllPairs store (Some 0) = getAllPairs store None" using t by blast
  have b: "pair_of ` set (getAllPairs store None) = set (market_pairs store)" using t by blast
  have c: "pair_of ` set (getAllPairs store (Some 0.05))
           = {mp \<in> set (market_pairs store).
                case mp_priceGap mp of None \<Rightarrow> False | Some x \<Rightarrow> 0.05 \<le> \<bar>x\<bar>}"
    using t by simp
  have "mk_pair 2 (Some 2) (Some 4) None \<in> pair_of ` set (getAllPairs store (Some 0))"
    unfolding a b by (simp add: store_def)
  moreover have "mk_pair 2 (Some 2) (Some 4) None \<notin> pair_of ` set (getAllPairs store (Some 0.05))"
    unfolding c by (simp add: mk_pair_def)
  moreover have "mk_pair 3 (Some 2) None (Some (- 0.05)) \<in> pair_of ` set (getAllPairs store (Some 0.05))"
    unfolding c by (simp add: store_def) (simp add: mk_pair_def)
  ultimately show ?thesis using a by blast
qed

subsection \<open>Acknowledging an alert\<close>

lemma alerts_acknowledgeAlert:
  "alerts (acknowledgeAlert db i)
     = map (\<lambda>a. if a_id a = i then a\<lparr>a_acknowledged := Some 1\<rparr> else a) (alerts db)"
  by (simp add: acknowledgeAlert_def sql_update_def sql_eq_def)

lemma alerts_removeFromWatchlist: "alerts (removeFromWatchlist db t) = alerts db"
  by (simp add: removeFromWatchlist_def)

lemma alerts_insert: "alerts (snd (insert_trader_watchlist db t c)) = alerts db"
  by (simp add: insert_trader_watchlist_def Let_def)

lemma alerts_addToWatchlist: "alerts (snd (addToWatchlist string_of db t c)) = alerts db"
  using alerts_insert[of db t c]
  by (auto simp: addToWatchlist_def Let_def split: prod.splits sum.splits)

lemma snd_run_action_toggle:
  "snd (run_action string_of db (ToggleWatchlist t w c))
     = (if w then removeFromWatchlist db t else snd (addToWatchlist string_of db t c))"
  by (auto split: prod.splits sum.splits)

lemma alerts_run_toggle: "alerts (snd (run_action string_of db (ToggleWatchlist t w c))) = alerts db"
  by (simp add: snd_run_action_toggle alerts_removeFromWatchlist alerts_addToWatchlist
      del: run_action.simps)

lemma alerts_run_ack:
  "alerts (snd (run_action string_of db (AcknowledgeAlert i))) = alerts (acknowledgeAlert db i)"
  by simp

lemma ids_run_action: "map a_id (alerts (snd (run_action string_of db act))) = map a_id (alerts db)"
  by (cases act)
     (simp_all add: alerts_run_toggle alerts_run_ack alerts_acknowledgeAlert comp_def
        del: run_action.simps)

lemma ack_kept_step:
  assumes "i < length (alerts db)" "a_acknowledged (alerts db ! i) = Some 1"
  shows "a_acknowledged (alerts (snd (run_action string_of db act)) ! i) = Some 1"
  using assms
  by (cases act)
     (simp_all add: alerts_run_toggle alerts_run_ack alerts_acknowledgeAlert
        del: run_action.simps)

lemma length_alerts_run_action: "length (alerts (snd (run_action string_of db act))) = length (alerts db)"
  using ids_run_action[of string_of db act] by (metis length_map)

lemma length_alerts_run_actions: "length (alerts (run_actions string_of db acts)) = length (alerts db)"
  by (induction acts arbitrary: db) (simp_all add: length_alerts_run_action)

lemma ack_kept:
  assumes "i < length (alerts db)" "a_acknowledged (alerts db ! i) = Some 1"
  shows "a_acknowledged (alerts (run_actions string_of db acts) ! i) = Some 1"
  using assms
proof (induction acts arbitrary: db)
  case Nil
  then show ?case by simp
next
  case (Cons act acts)
  show ?case
    using Cons.IH[of "snd (run_action string_of db act)"] Cons.prems ack_kept_step[of i db string_of act]
    by (simp add: length_alerts_run_action)
qed

lemma ids_run_actions: "map a_id (alerts (run_actions string_of db acts)) = map a_id (alerts db)"
  by (induction acts arbitrary: db) (simp_all add: ids_run_action)

text \<open>
  Claim C7. For every alert id: after \<^verbatim>\<open>acknowledgeAlert\<close> every alert with that id has
  \<open>acknowledged = 1\<close>; acknowledging the same id a second time gives the same store,
  and the action never fails; for an id no alert has, the store is unchanged; and after
  any sequence of the exposed actions (toggling the watchlist, acknowledging alerts) the
  alerts are the same alerts in the same places, and each one that was acknowledged
  still is. This holds whatever text the library gives its errors.
\<close>

theorem acknowledgeAlert_idempotent_one_way:
  "(\<forall>a \<in> set (alerts (acknowledgeAlert db alertId)).
       a_id a = alertId \<longrightarrow> a_acknowledged a = Some 1)
   \<and> acknowledgeAlert (acknowledgeAlert db alertId) alertId = acknowledgeAlert db alertId
   \<and> run_action string_of db (AcknowledgeAlert alertId) = (Inr (), acknowledgeAlert db alertId)
   \<and> (alertId \<notin> a_id ` set (alerts db) \<longrightarrow> acknowledgeAlert db alertId = db)
   \<and> map a_id (alerts (run_actions string_of db acts)) = map a_id (alerts db)
   \<and> (\<forall>i < length (alerts db).
         a_acknowledged (alerts db ! i) = Some 1 \<longrightarrow>
         a_acknowledged (alerts (run_actions string_of db acts) ! i) = Some 1)"
proof -
  let ?c = "\<lambda>a. sql_eq (Some (a_id a)) (Some alertId)"
  let ?f = "\<lambda>a. a\<lparr>a_acknowledged := Some 1\<rparr>"
  have set1: "\<forall>a \<in> set (alerts (acknowledgeAlert db alertId)).
       a_id a = alertId \<longrightarrow> a_acknowledged a = Some 1"
  proof (intro ballI impI)
    fix a
    assume mem: "a \<in> set (alerts (acknowledgeAlert db alertId))" and i: "a_id a = alertId"
    from mem obtain x where
      x: "a = (if a_id x = alertId then x\<lparr>a_acknowledged := Some 1\<rparr> else x)"
      unfolding alerts_acknowledgeAlert set_map by blast
    show "a_acknowledged a = Some 1"
    proof (cases "a_id x = alertId")
      case True
      with x show ?thesis by simp
    next
      case False
      with x i show ?thesis by simp
    qed
  qed
  have ff: "sql_update ?c ?f (sql_update ?c ?f xs) = sql_update ?c ?f xs" for xs
    by (induction xs) (simp_all add: sql_update_def sql_eq_def)
  have "alerts (acknowledgeAlert db alertId) = sql_update ?c ?f (alerts db)"
    by (simp add: acknowledgeAlert_def)
  then have idem: "acknowledgeAlert (acknowledgeAlert db alertId) alertId = acknowledgeAlert db alertId"
    unfolding acknowledgeAlert_def[of "acknowledgeAlert db alertId"]
    by (simp only: ff) (simp add: acknowledgeAlert_def)
  have noex: "acknowledgeAlert db alertId = db" if "alertId \<notin> a_id ` set (alerts db)"
  proof -
    have "sql_update ?c ?f (alerts db) = alerts db"
      unfolding sql_update_def by (rule map_idI) (use that in \<open>auto simp: sql_eq_def\<close>)
    then show ?thesis by (simp add: acknowledgeAlert_def)
  qed
  have run: "run_action string_of db (AcknowledgeAlert alertId) = (Inr (), acknowledgeAlert db alertId)"
    by simp
  have kept: "\<forall>i < length (alerts db).
         a_acknowledged (alerts db ! i) = Some 1 \<longrightarrow>
         a_acknowledged (alerts (run_actions string_of db acts) ! i) = Some 1"
    using ack_kept by blast
  from set1 idem run noex ids_run_actions[of string_of db acts] kept show ?thesis
    by (intro conjI impI) assumption+
qed

lemma alerts_store_ack:
  "alerts (acknowledgeAlert store 1) = [mk_alert 1 (Some 1), mk_alert 2 (Some 1)]"
  by (simp add: alerts_acknowledgeAlert store_def) (simp add: mk_alert_def)

theorem acknowledgeAlert_idempotent_one_way_witness:
  "a_acknowledged (alerts store ! 0) = Some 0
   \<and> a_acknowledged (alerts (acknowledgeAlert store 1) ! 0) = Some 1
   \<and> acknowledgeAlert (acknowledgeAlert store 1) 1 = acknowledgeAlert store 1
   \<and> acknowledgeAlert store 99 = store
   \<and> a_acknowledged
        (alerts (run_actions driver_error_text (acknowledgeAlert store 1)
                   [ToggleWatchlist 8 False ''now'', AcknowledgeAlert 2,
                    ToggleWatchlist 7 True ''now'', AcknowledgeAlert 1]) ! 0) = Some 1"
proof -
  note t = acknowledgeAlert_idempotent_one_way[of store 1 driver_error_text]
  note u = acknowledgeAlert_idempotent_one_way[of store 99 driver_error_text]
  note v = acknowledgeAlert_idempotent_one_way[of "acknowledgeAlert store 1" 1 driver_error_text
      "[ToggleWatchlist 8 False ''now'', AcknowledgeAlert 2,
        ToggleWatchlist 7 True ''now'', AcknowledgeAlert 1]"]
  have a: "a_acknowledged (alerts store ! 0) = Some 0"
    by (simp add: store_def mk_alert_def)
  have b: "a_acknowledged (alerts (acknowledgeAlert store 1) ! 0) = Some 1"
    by (simp add: alerts_store_ack mk_alert_def)
  have c: "acknowledgeAlert (acknowledgeAlert store 1) 1 = acknowledgeAlert store 1"
    using t by blast
  have "99 \<notin> a_id ` set (alerts store)"
    by (simp add: store_def mk_alert_def)
  with u have d: "acknowledgeAlert store 99 = store" by blast
  have "0 < length (alerts (acknowledgeAlert store 1))"
    by (simp add: alerts_store_ack)
  with v b have e: "a_acknowledged
        (alerts (run_actions driver_error_text (acknowledgeAlert store 1)
                   [ToggleWatchlist 8 False ''now'', AcknowledgeAlert 2,
                    ToggleWatchlist 7 True ''now'', AcknowledgeAlert 1]) ! 0) = Some 1"
    by blast
  from a b c d e show ?thesis by blast
qed

subsection \<open>The watchlist\<close>



lemma fkey_not_benign:
  "\<not> js_includes (toLowerCase (driver_error_text (DbError fkey_violation))) ''duplicate''
   \<and> \<not> js_includes (toLowerCase (driver_error_text (DbError fkey_violation))) ''unique''"
  by (simp add: toLowerCase_def driver_error_text_def fkey_violation_def lower_char_def)










text \<open>An insert that does not conflict: the trader gets an entry.\<close>

lemma add_fresh_store:
  "fst (addToWatchlist string_of store 8 ''now'') = Inr True
   \<and> map tw_traderId (trader_watchlist (snd (addToWatchlist string_of store 8 ''now''))) = [7, 8]"
  by (simp add: addToWatchlist_def insert_trader_watchlist_def Let_def store_def mk_trader_def)

subsection \<open>The latest positions of a trader\<close>

lemma sql_max_None: "sql_max xs = None \<longleftrightarrow> (\<forall>x \<in> set xs. x = None)"
  by (induction xs rule: sql_max.induct) (auto split: option.splits)

lemma sql_max_mem: "sql_max xs = Some t \<Longrightarrow> Some t \<in> set xs"
  by (induction xs arbitrary: t rule: sql_max.induct) (auto split: option.splits simp: max_def)

lemma sql_max_ge: "sql_max xs = Some t \<Longrightarrow> Some u \<in> set xs \<Longrightarrow> u \<le> t"
proof (induction xs arbitrary: t rule: sql_max.induct)
  case 1
  then show ?case by simp
next
  case (2 xs)
  then show ?case by auto
next
  case (3 x xs)
  show ?case
  proof (cases "sql_max xs")
    case None
    with 3 show ?thesis by (auto simp: sql_max_None)
  next
    case (Some y)
    with 3 show ?thesis by (auto simp: max_def split: if_splits)
  qed
qed

lemma trader_rows:
  "set (sql_where (\<lambda>p. sql_eq (tp_traderId p) (Some traderId)) rows)
     = {p \<in> set rows. tp_traderId p = Some traderId}"
  by (auto simp: set_sql_where sql_eq_def split: option.splits)

lemma latest_cond:
  "sql_and [\<lambda>p. sql_eq (tp_traderId p) (Some traderId),
            \<lambda>p. sql_eq (tp_snapshotTime p) (Some t)] p = Some True
   \<longleftrightarrow> tp_traderId p = Some traderId \<and> tp_snapshotTime p = Some t"
  by (auto simp: sql_and2_true sql_eq_def split: option.splits)

text \<open>
  Claim C9, as amended. For every trader id, the first query resolves the greatest
  snapshot time among the trader's rows (NULLs ignored): some row of the trader has it
  and none has a later one. When there is none the result is empty. When it is the
  empty text, the column's default, the result is empty as well. Otherwise the result
  holds exactly the trader's rows whose snapshot time equals it, each once, sorted by
  current value descending: never rows of two instants.
\<close>

theorem latest_positions_one_instant:
  "(case latest_snapshot_time db traderId of
      None \<Rightarrow> getLatestTraderPositions db traderId = []
    | Some t \<Rightarrow>
        (\<exists>p \<in> set (trader_positions db). tp_traderId p = Some traderId \<and> tp_snapshotTime p = Some t)
        \<and> (\<forall>p \<in> set (trader_positions db).
              tp_traderId p = Some traderId \<longrightarrow>
              (case tp_snapshotTime p of None \<Rightarrow> True | Some u \<Rightarrow> u \<le> t))
        \<and> (if t = [] then getLatestTraderPositions db traderId = []
            else set (getLatestTraderPositions db traderId)
                   = {p \<in> set (trader_positions db).
                        tp_traderId p = Some traderId \<and> tp_snapshotTime p = Some t}
               \<and> length (getLatestTraderPositions db traderId)
                   = length (filter (\<lambda>p. tp_traderId p = Some traderId \<and> tp_snapshotTime p = Some t)
                       (trader_positions db))
               \<and> sorted_wrt (sql_desc tp_currentValue) (getLatestTraderPositions db traderId)))"
proof (cases "latest_snapshot_time db traderId")
  case None
  then show ?thesis
    by (simp add: getLatestTraderPositions_def latest_snapshot_time_def truthy_def)
next
  case (Some t)
  let ?mine = "sql_where (\<lambda>p. sql_eq (tp_traderId p) (Some traderId)) (trader_positions db)"
  note lt = Some
  from Some have mx: "sql_max (map tp_snapshotTime ?mine) = Some t"
    by (simp add: latest_snapshot_time_def)
  from sql_max_mem[OF mx] have ex:
    "\<exists>p \<in> set (trader_positions db). tp_traderId p = Some traderId \<and> tp_snapshotTime p = Some t"
    by (auto simp: trader_rows)
  have ub: "\<forall>p \<in> set (trader_positions db).
              tp_traderId p = Some traderId \<longrightarrow>
              (case tp_snapshotTime p of None \<Rightarrow> True | Some u \<Rightarrow> u \<le> t)"
  proof (intro ballI impI)
    fix p assume p: "p \<in> set (trader_positions db)" "tp_traderId p = Some traderId"
    show "case tp_snapshotTime p of None \<Rightarrow> True | Some u \<Rightarrow> u \<le> t"
    proof (cases "tp_snapshotTime p")
      case None
      then show ?thesis by simp
    next
      case (Some u)
      with p have "Some u \<in> set (map tp_snapshotTime ?mine)"
        by (force simp: trader_rows)
      from sql_max_ge[OF mx this] Some show ?thesis by simp
    qed
  qed
  have res: "if t = [] then getLatestTraderPositions db traderId = []
            else set (getLatestTraderPositions db traderId)
                   = {p \<in> set (trader_positions db).
                        tp_traderId p = Some traderId \<and> tp_snapshotTime p = Some t}
               \<and> length (getLatestTraderPositions db traderId)
                   = length (filter (\<lambda>p. tp_traderId p = Some traderId \<and> tp_snapshotTime p = Some t)
                       (trader_positions db))
               \<and> sorted_wrt (sql_desc tp_currentValue) (getLatestTraderPositions db traderId)"
  proof (cases "t = []")
    case True
    with lt show ?thesis by (simp add: getLatestTraderPositions_def truthy_def)
  next
    case False
    with lt have g: "getLatestTraderPositions db traderId
        = order_by (sql_desc tp_currentValue)
            (sql_where (sql_and [\<lambda>p. sql_eq (tp_traderId p) (Some traderId),
                                 \<lambda>p. sql_eq (tp_snapshotTime p) (Some t)]) (trader_positions db))"
      by (simp add: getLatestTraderPositions_def truthy_def)
    have f: "sql_where (sql_and [\<lambda>p. sql_eq (tp_traderId p) (Some traderId),
                                 \<lambda>p. sql_eq (tp_snapshotTime p) (Some t)]) (trader_positions db)
        = filter (\<lambda>p. tp_traderId p = Some traderId \<and> tp_snapshotTime p = Some t) (trader_positions db)"
      unfolding sql_where_def latest_cond ..
    from False show ?thesis
      unfolding g f by (simp add: set_order_by length_order_by sorted_order_by_desc)
  qed
  from lt ex ub res show ?thesis by simp
qed

lemma latest_store_7: "latest_snapshot_time store 7 = Some ''2026-01-02''"
  by (simp add: latest_snapshot_time_def store_def mk_position_def sql_where_def sql_eq_def)

lemma latest_store_8: "latest_snapshot_time store 8 = Some []"
  by (simp add: latest_snapshot_time_def store_def mk_position_def sql_where_def sql_eq_def)

theorem latest_positions_one_instant_witness:
  "latest_snapshot_time store 7 = Some ''2026-01-02''
   \<and> set (getLatestTraderPositions store 7)
       = {mk_position 2 (Some 7) (Some 9) (Some ''2026-01-02''),
          mk_position 3 (Some 7) (Some 20) (Some ''2026-01-02'')}
   \<and> length (getLatestTraderPositions store 7) = 2"
proof -
  from latest_positions_one_instant[of store 7]
  have s: "set (getLatestTraderPositions store 7)
                   = {p \<in> set (trader_positions store).
                        tp_traderId p = Some 7 \<and> tp_snapshotTime p = Some ''2026-01-02''}"
    and l: "length (getLatestTraderPositions store 7)
                   = length (filter (\<lambda>p. tp_traderId p = Some 7 \<and> tp_snapshotTime p = Some ''2026-01-02'')
                       (trader_positions store))"
    by (simp_all add: latest_store_7)
  have "{p \<in> set (trader_positions store).
                        tp_traderId p = Some 7 \<and> tp_snapshotTime p = Some ''2026-01-02''}
      = {mk_position 2 (Some 7) (Some 9) (Some ''2026-01-02''),
          mk_position 3 (Some 7) (Some 20) (Some ''2026-01-02'')}"
    by (auto simp: store_def mk_position_def)
  moreover have "length (filter (\<lambda>p. tp_traderId p = Some 7 \<and> tp_snapshotTime p = Some ''2026-01-02'')
                       (trader_positions store)) = 2"
    by (simp add: store_def mk_position_def)
  ultimately show ?thesis using s l latest_store_7 by simp
qed

text \<open>
  Claim C9 as stated returns the rows at the resolved time for every trader. Trader 8 of
  the small store has one row, at the empty snapshot time: that time is resolved, and
  the row is not returned.
\<close>

theorem latest_positions_counterexample:
  "latest_snapshot_time store 8 = Some []
   \<and> mk_position 4 (Some 8) (Some 1) (Some []) \<in> set (trader_positions store)
   \<and> tp_traderId (mk_position 4 (Some 8) (Some 1) (Some [])) = Some 8
   \<and> tp_snapshotTime (mk_position 4 (Some 8) (Some 1) (Some [])) = Some []
   \<and> getLatestTraderPositions store 8 = []"
  by (simp add: latest_store_8 getLatestTraderPositions_def truthy_def)
     (simp add: store_def mk_position_def)

subsection \<open>The price history and its range\<close>

lemma RANGE_HOURS_own:
  "RANGE_HOURS ''24h'' = Some (JsNumber 24)"
  "RANGE_HOURS ''7d'' = Some (JsNumber 168)"
  "RANGE_HOURS ''30d'' = Some (JsNumber 720)"
  by (simp_all add: RANGE_HOURS_def)

lemma RANGE_HOURS_constructor: "RANGE_HOURS ''constructor'' = Some JsInherited"
  by (simp add: RANGE_HOURS_def Object_prototype_names_def)

text \<open>
  Claim C5 says that a range other than \<^verbatim>\<open>24h\<close>, \<^verbatim>\<open>7d\<close>, \<^verbatim>\<open>30d\<close> imposes no lower
  bound. The range \<^verbatim>\<open>constructor\<close> is not one of the three; the property read finds
  \<^verbatim>\<open>Object.prototype.constructor\<close>, the cutoff is an invalid date, and the query function
  rejects with a RangeError, for every store, market and limit.
\<close>

theorem price_history_inherited_range:
  "getPriceHistoryWithRange now toISOString db marketId (Some ''constructor'') limit
     = Inl (RangeError ''Invalid time value'')"
  by (simp add: getPriceHistoryWithRange_def getPriceHistory_conditions_def truthy_def
      js_default_def RANGE_HOURS_constructor)

text \<open>The same for every name that \<^verbatim>\<open>Object.prototype\<close> defines.\<close>

lemma price_history_inherited_names:
  assumes "rng \<in> set Object_prototype_names"
  shows "getPriceHistoryWithRange now toISOString db marketId (Some rng) limit
     = Inl (RangeError ''Invalid time value'')"
proof -
  from assms have "RANGE_HOURS rng = Some JsInherited" and "rng \<noteq> []" and "rng \<noteq> ''all''"
    by (auto simp: RANGE_HOURS_def Object_prototype_names_def)
  then show ?thesis
    by (simp add: getPriceHistoryWithRange_def getPriceHistory_conditions_def truthy_def
        js_default_def)
qed

text \<open>
  The rest of the claim holds: for the three ranges the rows are those of the market at
  or after the cutoff, newest first, at most \<open>limit\<close>; for an absent or empty range,
  \<^verbatim>\<open>all\<close>, or a range the property read does not find, there is no lower bound.
\<close>

lemma price_history_conditions_own:
  assumes "(rng, h) \<in> {(Some ''24h'', 24), (Some ''7d'', 168), (Some ''30d'', 720)}"
  shows "getPriceHistory_conditions now toISOString marketId rng
       = Inr [\<lambda>s. sql_eq (Some (ps_marketId s)) (Some marketId),
              \<lambda>s. sql_gte (ps_timestamp s) (Some (toISOString (now - h * 60 * 60 * 1000)))]"
  using assms
  by (auto simp: getPriceHistory_conditions_def truthy_def js_default_def RANGE_HOURS_own)


lemma price_history_bounded:
  assumes "(rng, h) \<in> {(Some ''24h'', 24), (Some ''7d'', 168), (Some ''30d'', 720)}"
  shows "\<exists>rows. getPriceHistoryWithRange now toISOString db marketId rng limit = Inr (take limit rows)
     \<and> sorted_wrt (sql_desc ps_timestamp) rows
     \<and> set rows = {s \<in> set (price_snapshots db). ps_marketId s = marketId \<and>
           (case ps_timestamp s of None \<Rightarrow> False
            | Some t \<Rightarrow> toISOString (now - h * 60 * 60 * 1000) \<le> t)}"
proof -
  let ?c = "sql_and [\<lambda>s. sql_eq (Some (ps_marketId s)) (Some marketId),
              \<lambda>s. sql_gte (ps_timestamp s) (Some (toISOString (now - h * 60 * 60 * 1000)))]"
  let ?rows = "order_by (sql_desc ps_timestamp) (sql_where ?c (price_snapshots db))"
  have "getPriceHistoryWithRange now toISOString db marketId rng limit = Inr (take limit ?rows)"
    by (simp add: getPriceHistoryWithRange_def price_history_conditions_own[OF assms])
  moreover have "sorted_wrt (sql_desc ps_timestamp) ?rows"
    by (rule sorted_order_by_desc)
  moreover have "set ?rows = {s \<in> set (price_snapshots db). ps_marketId s = marketId \<and>
           (case ps_timestamp s of None \<Rightarrow> False
            | Some t \<Rightarrow> toISOString (now - h * 60 * 60 * 1000) \<le> t)}"
    by (auto simp: set_order_by set_sql_where sql_and2_true sql_eq_def sql_gte_def
        split: option.splits)
  ultimately show ?thesis by blast
qed


lemma price_history_store:
  "getPriceHistoryWithRange 0 (\<lambda>_. ''2026-01-02T00:00:00.000Z'') store 1 (Some ''24h'') 500
     = Inr [mk_snapshot 2 1 (Some ''2026-01-03T00:00:00.000Z''),
            mk_snapshot 4 1 (Some ''2026-01-02T12:00:00.000Z'')]"
  by (simp add: getPriceHistoryWithRange_def price_history_conditions_own[of _ 24]
      store_def mk_snapshot_def sql_where_def sql_eq_def sql_gte_def
      sql_and2_true order_by_def sql_desc_def)

subsection \<open>Patterns without wildcards are substring searches\<close>

lemma like_percent_Cons:
  "like_match (CHR ''%'' # q) t
     = (like_match q t \<or> (case t of [] \<Rightarrow> False | _ # u \<Rightarrow> like_match (CHR ''%'' # q) u))"
  by simp

lemma like_literal_Cons:
  "p \<notin> like_meta \<Longrightarrow>
   like_match (p # q) t = (case t of [] \<Rightarrow> False | c # u \<Rightarrow> c = p \<and> like_match q u)"
  by (simp add: like_meta_def)

lemma like_percent_all: "like_match [CHR ''%''] t"
  by (induction t) (simp_all del: like_match.simps(2) add: like_percent_Cons)

lemma like_prefix:
  "set ps \<inter> like_meta = {} \<Longrightarrow> like_match (ps @ [CHR ''%'']) t = starts_with t ps"
proof (induction ps arbitrary: t)
  case Nil
  then show ?case by (simp del: like_match.simps(2) add: like_percent_all)
next
  case (Cons p ps)
  then have p: "p \<notin> like_meta" and ps: "set ps \<inter> like_meta = {}" by auto
  show ?case
    by (cases t) (simp_all del: like_match.simps(2) add: like_literal_Cons[OF p] Cons.IH[OF ps])
qed

lemma like_substring:
  assumes "set ps \<inter> like_meta = {}"
  shows "like_match (CHR ''%'' # ps @ [CHR ''%'']) t = js_includes t ps"
proof (induction t)
  case Nil
  have "starts_with [] ps = (ps = [])" by (cases ps) simp_all
  then show ?case
    by (subst like_percent_Cons) (simp del: like_match.simps(2) add: like_prefix[OF assms])
next
  case (Cons c t)
  show ?case
    by (subst like_percent_Cons)
       (simp del: like_match.simps(2) add: like_prefix[OF assms] Cons.IH)
qed

lemma lower_char_range:
  "lower_char c = c \<or> lower_char c \<in> set ''abcdefghijklmnopqrstuvwxyz''"
proof (cases "map_of (zip ''ABCDEFGHIJKLMNOPQRSTUVWXYZ'' ''abcdefghijklmnopqrstuvwxyz'') c")
  case None
  then show ?thesis by (simp add: lower_char_def)
next
  case (Some d)
  then have "(c, d) \<in> set (zip ''ABCDEFGHIJKLMNOPQRSTUVWXYZ'' ''abcdefghijklmnopqrstuvwxyz'')"
    by (rule map_of_SomeD)
  then have "d \<in> set ''abcdefghijklmnopqrstuvwxyz''" by (rule set_zip_rightD)
  with Some show ?thesis by (simp add: lower_char_def)
qed

lemma lower_char_meta: "c \<notin> like_meta \<Longrightarrow> lower_char c \<notin> like_meta"
  using lower_char_range[of c] by (auto simp: like_meta_def)

lemma lower_no_meta: "set s \<inter> like_meta = {} \<Longrightarrow> set (map lower_char s) \<inter> like_meta = {}"
  using lower_char_meta by auto

lemma ilike_substring:
  assumes "set s \<inter> like_meta = {}"
  shows "sql_ilike (Some title) (''%'' @ s @ ''%'')
       = Some (js_includes (toLowerCase title) (toLowerCase s))"
proof -
  have "lower_char CHR ''%'' = CHR ''%''" by (simp add: lower_char_def)
  then have "map lower_char (''%'' @ s @ ''%'') = CHR ''%'' # map lower_char s @ [CHR ''%'']"
    by simp
  then show ?thesis
    by (simp only: sql_ilike_def option.case toLowerCase_def like_substring[OF lower_no_meta[OF assms]])
qed

text \<open>\<open>js_includes s sub\<close> says that \<open>sub\<close> occurs in \<open>s\<close> as a contiguous run.\<close>

lemma starts_with_iff: "starts_with s sub \<longleftrightarrow> (\<exists>b. s = sub @ b)"
  by (induction s sub rule: starts_with.induct) auto

lemma js_includes_iff: "js_includes s sub \<longleftrightarrow> (\<exists>a b. s = a @ sub @ b)"
proof (induction s)
  case Nil
  then show ?case by simp
next
  case (Cons c s)
  show ?case
  proof
    assume "js_includes (c # s) sub"
    then consider "starts_with (c # s) sub" | "js_includes s sub" by auto
    then show "\<exists>a b. c # s = a @ sub @ b"
    proof cases
      case 1
      then obtain b where "c # s = sub @ b" by (auto simp: starts_with_iff)
      then have "c # s = [] @ sub @ b" by simp
      then show ?thesis by blast
    next
      case 2
      with Cons.IH obtain a b where "s = a @ sub @ b" by blast
      then have "c # s = (c # a) @ sub @ b" by simp
      then show ?thesis by blast
    qed
  next
    assume "\<exists>a b. c # s = a @ sub @ b"
    then obtain a b where ab: "c # s = a @ sub @ b" by blast
    show "js_includes (c # s) sub"
    proof (cases a)
      case Nil
      with ab have "starts_with (c # s) sub" by (auto simp: starts_with_iff)
      then show ?thesis by simp
    next
      case (Cons x a')
      with ab have "s = a' @ sub @ b" by simp
      with Cons.IH have "js_includes s sub" by blast
      then show ?thesis by simp
    qed
  qed
qed

subsection \<open>The filter and the sort order of \<^verbatim>\<open>getMarkets\<close>\<close>

lemma js_includes_Nil: "js_includes t []"
  by (cases t) simp_all

lemma where_opt_conditions:
  "m \<in> set (where_opt (getMarkets_where params) rows)
     \<longleftrightarrow> m \<in> set rows \<and> (\<forall>c \<in> set (getMarkets_conditions params). c m = Some True)"
  by (cases "getMarkets_conditions params")
     (simp_all add: where_opt_def getMarkets_where_def Let_def set_sql_where sql_and_true
        del: sql_and.simps)

lemma conditions_filters:
  "(\<forall>c \<in> set (getMarkets_conditions params). c m = Some True)
     \<longleftrightarrow> status_filter params m \<and> platform_filter params m
         \<and> category_filter params m \<and> search_filter params m"
proof -
  have st: "(\<forall>c \<in> set (if truthy (Some (js_default (p_status params) ''active''))
                           \<and> Some (js_default (p_status params) ''active'') \<noteq> Some ''all''
                         then [\<lambda>m. sql_eq (m_status m) (Some (js_default (p_status params) ''active''))]
                         else []). c m = Some True)
            \<longleftrightarrow> status_filter params m"
    by (auto simp: status_filter_def truthy_def sql_eq_def Let_def split: option.splits)
  have pl: "(\<forall>c \<in> set (if truthy (p_platform params) \<and> p_platform params \<noteq> Some ''all''
                         then [\<lambda>m. sql_eq (Some (m_platform m)) (p_platform params)]
                         else []). c m = Some True)
            \<longleftrightarrow> platform_filter params m"
    by (auto simp: platform_filter_def truthy_def sql_eq_def split: option.splits)
  have ca: "(\<forall>c \<in> set (if truthy (p_category params) \<and> p_category params \<noteq> Some ''All''
                            \<and> p_category params \<noteq> Some ''all''
                         then [\<lambda>m. sql_eq (m_category m) (p_category params)]
                         else []). c m = Some True)
            \<longleftrightarrow> category_filter params m"
    by (auto simp: category_filter_def truthy_def sql_eq_def split: option.splits)
  have se: "(\<forall>c \<in> set (case p_search params of
                           None \<Rightarrow> []
                         | Some s \<Rightarrow>
                             if s \<noteq> [] then [\<lambda>m. sql_ilike (Some (m_title m)) (''%'' @ s @ ''%'')]
                             else []). c m = Some True)
            \<longleftrightarrow> search_filter params m"
    by (auto simp: search_filter_def split: option.splits)
  show ?thesis
    unfolding getMarkets_conditions_def Let_def set_append ball_Un st pl ca se ..
qed

lemma getMarkets_rows:
  "set (where_opt (getMarkets_where params) rows)
     = {m \<in> set rows. status_filter params m \<and> platform_filter params m
          \<and> category_filter params m \<and> search_filter params m}"
  by (rule set_eqI) (simp only: where_opt_conditions conditions_filters mem_Collect_eq)

lemma getMarkets_Inr:
  assumes "1 \<le> js_default (p_page params) 1"
  shows "getMarkets db params =
     Inr \<lparr> data = take PAGE_SIZE (drop (nat ((js_default (p_page params) 1 - 1) * int PAGE_SIZE))
              (order_by (order_term_le (getMarkets_orderBy (js_default (p_sort params) ''volume_desc'')))
                 (where_opt (getMarkets_where params) (markets db)))),
            total = length (where_opt (getMarkets_where params) (markets db)),
            page = js_default (p_page params) 1,
            pageSize = PAGE_SIZE,
            totalPages = nat \<lceil>real (length (where_opt (getMarkets_where params) (markets db)))
                              / real PAGE_SIZE\<rceil> \<rparr>"
proof -
  from assms have "0 \<le> (js_default (p_page params) 1 - 1) * int PAGE_SIZE"
    by simp
  then have "sql_offset ((js_default (p_page params) 1 - 1) * int PAGE_SIZE) xs
      = Inr (drop (nat ((js_default (p_page params) 1 - 1) * int PAGE_SIZE)) xs)" for xs :: "market list"
    unfolding sql_offset_def by (simp only: not_less[symmetric] if_False)
  then show ?thesis
    unfolding getMarkets_def Let_def by (simp only: sum.case)
qed

lemma orderBy_fallback:
  assumes "k \<notin> {''volume_asc'', ''title_asc'', ''title_desc'', ''yes_price_desc'', ''yes_price_asc''}"
  shows "getMarkets_orderBy k = Desc Volume"
  using assms by (simp add: getMarkets_orderBy_def)

lemma sorted_page:
  "sorted_wrt le xs \<Longrightarrow> sorted_wrt le (take n (drop k xs))"
  by (simp add: sorted_wrt_take sorted_wrt_drop)

text \<open>
  Claim C1, as amended. For every parameter object the rows \<^verbatim>\<open>getMarkets\<close> selects are
  exactly the markets that meet the status, platform, category and search demands
  together; an absent, empty or \<^verbatim>\<open>all\<close> value demands nothing; an absent status
  demands \<^verbatim>\<open>active\<close>; the search is the pattern match \<^verbatim>\<open>ILIKE '%search%'\<close>, which is
  the case-insensitive substring search when the search text has no \<^verbatim>\<open>%\<close>, \<^verbatim>\<open>_\<close> or
  backslash; the rows returned are among the selected ones and sorted by the one order
  the sort key selects, and every key but the five others selects volume descending.
\<close>

theorem getMarkets_conjunctive_filter:
  "set (where_opt (getMarkets_where params) (markets db))
     = {m \<in> set (markets db). status_filter params m \<and> platform_filter params m
          \<and> category_filter params m \<and> search_filter params m}
   \<and> (p_status params = None \<longrightarrow> status_filter params m = (m_status m = Some ''active''))
   \<and> (p_search params = Some s \<and> set s \<inter> like_meta = {} \<longrightarrow>
         search_filter params m = js_includes (toLowerCase (m_title m)) (toLowerCase s))
   \<and> (1 \<le> js_default (p_page params) 1 \<longrightarrow>
         (\<exists>r. getMarkets db params = Inr r
            \<and> set (data r) \<subseteq> set (where_opt (getMarkets_where params) (markets db))
            \<and> total r = length (where_opt (getMarkets_where params) (markets db))
            \<and> sorted_wrt
                 (order_term_le (getMarkets_orderBy (js_default (p_sort params) ''volume_desc'')))
                 (data r)))
   \<and> getMarkets_orderBy ''volume_desc'' = Desc Volume
   \<and> getMarkets_orderBy ''volume_asc'' = Asc Volume
   \<and> getMarkets_orderBy ''yes_price_desc'' = Desc YesPrice
   \<and> getMarkets_orderBy ''yes_price_asc'' = Asc YesPrice
   \<and> getMarkets_orderBy ''title_asc'' = Asc Title
   \<and> getMarkets_orderBy ''title_desc'' = Desc Title
   \<and> (k \<notin> {''volume_asc'', ''title_asc'', ''title_desc'', ''yes_price_desc'', ''yes_price_asc''}
        \<longrightarrow> getMarkets_orderBy k = Desc Volume)"
proof -
  let ?rows = "where_opt (getMarkets_where params) (markets db)"
  let ?le = "order_term_le (getMarkets_orderBy (js_default (p_sort params) ''volume_desc''))"
  have st: "status_filter params m = (m_status m = Some ''active'')" if "p_status params = None"
    using that by (simp add: status_filter_def js_default_def)
  have se: "search_filter params m = js_includes (toLowerCase (m_title m)) (toLowerCase s)"
    if "p_search params = Some s \<and> set s \<inter> like_meta = {}"
  proof (cases "s = []")
    case True
    with that show ?thesis
      by (simp add: search_filter_def toLowerCase_def js_includes_Nil)
  next
    case False
    from that have "sql_ilike (Some (m_title m)) (''%'' @ s @ ''%'')
        = Some (js_includes (toLowerCase (m_title m)) (toLowerCase s))"
      by (intro ilike_substring) simp
    with that False show ?thesis
      by (simp add: search_filter_def)
  qed
  have pg: "\<exists>r. getMarkets db params = Inr r
            \<and> set (data r) \<subseteq> set ?rows \<and> total r = length ?rows \<and> sorted_wrt ?le (data r)"
    if "1 \<le> js_default (p_page params) 1"
  proof -
    have "set (take PAGE_SIZE (drop (nat ((js_default (p_page params) 1 - 1) * int PAGE_SIZE))
              (order_by ?le ?rows))) \<subseteq> set ?rows"
      using set_take_subset set_drop_subset set_order_by by fast
    moreover have "sorted_wrt ?le (take PAGE_SIZE
        (drop (nat ((js_default (p_page params) 1 - 1) * int PAGE_SIZE)) (order_by ?le ?rows)))"
      by (rule sorted_page) (rule sorted_order_term)
    ultimately show ?thesis
      unfolding getMarkets_Inr[OF that] by simp
  qed
  have keys: "getMarkets_orderBy ''volume_desc'' = Desc Volume"
    "getMarkets_orderBy ''volume_asc'' = Asc Volume"
    "getMarkets_orderBy ''yes_price_desc'' = Desc YesPrice"
    "getMarkets_orderBy ''yes_price_asc'' = Asc YesPrice"
    "getMarkets_orderBy ''title_asc'' = Asc Title"
    "getMarkets_orderBy ''title_desc'' = Desc Title"
    by (simp_all add: getMarkets_orderBy_def)
  from getMarkets_rows[of params "markets db"] st se pg keys orderBy_fallback[of k]
  show ?thesis by (intro conjI impI) assumption+
qed

lemma btc_search:
  "where_opt (getMarkets_where (no_params\<lparr>p_search := Some ''btc''\<rparr>)) (markets store) = [btc]"
  by (simp add: store_defs getMarkets_where_def getMarkets_conditions_def js_default_def
      truthy_def where_opt_def sql_where_def sql_eq_def sql_ilike_def lower_char_def
      sql_and2_true)

lemma b_c_search:
  "where_opt (getMarkets_where (no_params\<lparr>p_search := Some ''b_c''\<rparr>)) (markets store) = [btc]"
  by (simp add: store_defs getMarkets_where_def getMarkets_conditions_def js_default_def
      truthy_def where_opt_def sql_where_def sql_eq_def sql_ilike_def lower_char_def
      sql_and2_true)

lemma one_page: "nat \<lceil>(1::real) / 50\<rceil> = Suc 0"
proof -
  have "\<lceil>(1::real) / 50\<rceil> = 1" by (rule ceiling_unique) simp_all
  then show ?thesis by simp
qed

theorem getMarkets_conjunctive_filter_witness:
  "set (where_opt (getMarkets_where (no_params\<lparr>p_search := Some ''btc''\<rparr>)) (markets store)) = {btc}
   \<and> search_filter (no_params\<lparr>p_search := Some ''btc''\<rparr>) btc
   \<and> js_includes (toLowerCase (m_title btc)) (toLowerCase ''btc'')
   \<and> (\<exists>r. getMarkets store (no_params\<lparr>p_search := Some ''btc''\<rparr>) = Inr r
          \<and> set (data r) \<subseteq> {btc} \<and> total r = 1)
   \<and> getMarkets_orderBy ''newest'' = Desc Volume"
proof -
  let ?p = "no_params\<lparr>p_search := Some ''btc''\<rparr>"
  note t = getMarkets_conjunctive_filter[of ?p store btc "''btc''" "''newest''"]
  have nometa: "p_search ?p = Some ''btc'' \<and> set ''btc'' \<inter> like_meta = {}"
    by (simp add: like_meta_def)
  have pg: "1 \<le> js_default (p_page ?p) 1"
    by (simp add: js_default_def no_params_def)
  have key: "''newest'' \<notin> {''volume_asc'', ''title_asc'', ''title_desc'', ''yes_price_desc'',
      ''yes_price_asc''}"
    by simp
  have rows: "set (where_opt (getMarkets_where ?p) (markets store)) = {btc}"
    by (simp add: btc_search)
  have inc: "js_includes (toLowerCase (m_title btc)) (toLowerCase ''btc'')"
    by (simp add: toLowerCase_def btc_def mk_market_def lower_char_def)
  from t nometa have "search_filter ?p btc = js_includes (toLowerCase (m_title btc)) (toLowerCase ''btc'')"
    by blast
  with inc have sf: "search_filter ?p btc" by simp
  from t pg obtain r where r: "getMarkets store ?p = Inr r"
    "set (data r) \<subseteq> set (where_opt (getMarkets_where ?p) (markets store))"
    "total r = length (where_opt (getMarkets_where ?p) (markets store))"
    by blast
  have "length (where_opt (getMarkets_where ?p) (markets store)) = 1"
    by (simp add: btc_search)
  with r rows have ex: "\<exists>r. getMarkets store ?p = Inr r \<and> set (data r) \<subseteq> {btc} \<and> total r = 1"
    by auto
  from t key have fb: "getMarkets_orderBy ''newest'' = Desc Volume" by blast
  from rows sf inc ex fb show ?thesis by (intro conjI) assumption+
qed

text \<open>
  Claim C1 as stated makes the search a substring search for every parameter object.
  The search text \<^verbatim>\<open>b_c\<close> is not a substring of the title \<^verbatim>\<open>BTC 100k\<close> in any
  case, and that market is returned: \<^verbatim>\<open>_\<close> stands for any one character.
\<close>

theorem getMarkets_search_counterexample:
  "\<not> js_includes (toLowerCase (m_title btc)) (toLowerCase ''b_c'')
   \<and> getMarkets store (no_params\<lparr>p_search := Some ''b_c''\<rparr>)
       = Inr \<lparr> data = [btc], total = 1, page = 1, pageSize = 50, totalPages = 1 \<rparr>"
proof -
  have a: "\<not> js_includes (toLowerCase (m_title btc)) (toLowerCase ''b_c'')"
    by (simp add: toLowerCase_def btc_def mk_market_def lower_char_def)
  have pg: "1 \<le> js_default (p_page (no_params\<lparr>p_search := Some ''b_c''\<rparr>)) 1"
    by (simp add: js_default_def no_params_def)
  have b: "getMarkets store (no_params\<lparr>p_search := Some ''b_c''\<rparr>)
       = Inr \<lparr> data = [btc], total = 1, page = 1, pageSize = 50, totalPages = 1 \<rparr>"
    unfolding getMarkets_Inr[OF pg] b_c_search
    by (simp add: order_by_def PAGE_SIZE_def js_default_def no_params_def one_page)
  from a b show ?thesis by (intro conjI) assumption+
qed

subsection \<open>Values outside the vocabularies\<close>












end
